theory Spec2Isabelle
  imports
    Complex_Main
    "HOL-Library.Char_ord"
    "HOL-Library.List_Lexorder"
    "HOL-Library.Product_Lexorder"
    "HOL-Library.Multiset"
    "HOL-Library.AList"
    "HOL-Library.Log_Nat"
begin

section \<open>Clip sequencing pipeline: metadata normalizer, scorer, optimizer, loop detector\<close>

text \<open>
  The Python scripts under \<^verbatim>\<open>scripts/\<close> are embedded function by function.
  A Python float is modelled by the rational number it denotes (\<^typ>\<open>rat\<close>).  The
  running time of the sequential fallback, the loop detector and the refinement pass take
  every float operation from a record of operations, so that their properties hold for
  whatever the machine rounds to; \<open>double_arith\<close> is the arithmetic of IEEE doubles.
  The time parsers, the end time that \<^verbatim>\<open>load_meta_files\<close> derives and the transition
  score are computed on the exact numbers.  Strings are byte strings;
  the string helpers (\<^verbatim>\<open>strip\<close>, \<^verbatim>\<open>lower\<close>, \<^verbatim>\<open>split\<close>, \<^verbatim>\<open>\d\<close>)
  are modelled on ASCII.
\<close>

subsection \<open>JSON values\<close>

text \<open>
  What \<^verbatim>\<open>json.load\<close> returns.  A number (int or float) is a \<open>JNum\<close>; a dict is
  an association list in insertion order, whose keys are distinct in a value that
  \<^verbatim>\<open>json.load\<close> produced.
\<close>

datatype json =
    JNull
  | JBool bool
  | JNum rat
  | JStr string
  | JArr "json list"
  | JObj "(string \<times> json) list"

text \<open>Truth value of a JSON value in Python.\<close>

definition truthy :: "json \<Rightarrow> bool" where
  "truthy v =
     (case v of
        JNull \<Rightarrow> False
      | JBool b \<Rightarrow> b
      | JNum x \<Rightarrow> x \<noteq> 0
      | JStr s \<Rightarrow> s \<noteq> []
      | JArr xs \<Rightarrow> xs \<noteq> []
      | JObj kvs \<Rightarrow> kvs \<noteq> [])"

subsection \<open>String helpers of the Python runtime\<close>

definition is_digit :: "char \<Rightarrow> bool" where
  "is_digit c = (c \<in> set ''0123456789'')"

definition is_space :: "char \<Rightarrow> bool" where
  "is_space c = (c \<in> set [CHR '' '', CHR 0x09, CHR 0x0A, CHR 0x0B, CHR 0x0C, CHR 0x0D])"

definition lower_char :: "char \<Rightarrow> char" where
  "lower_char c =
     (case map_of (zip ''ABCDEFGHIJKLMNOPQRSTUVWXYZ'' ''abcdefghijklmnopqrstuvwxyz'') c of
        Some d \<Rightarrow> d
      | None \<Rightarrow> c)"

definition lower :: "string \<Rightarrow> string" where
  "lower s = map lower_char s"

definition strip :: "string \<Rightarrow> string" where
  "strip s = rev (dropWhile is_space (rev (dropWhile is_space s)))"

definition endswith :: "string \<Rightarrow> string \<Rightarrow> bool" where
  "endswith s suf = (length suf \<le> length s \<and> drop (length s - length suf) s = suf)"

text \<open>\<^verbatim>\<open>s[:-n]\<close> for a positive literal \<open>n\<close>.\<close>

definition drop_last :: "nat \<Rightarrow> string \<Rightarrow> string" where
  "drop_last n s = take (length s - n) s"

text \<open>\<^verbatim>\<open>str.split()\<close> without arguments: the maximal runs of non-whitespace.\<close>

fun split_ws_acc :: "string \<Rightarrow> string \<Rightarrow> string list" where
  "split_ws_acc cur [] = (if cur = [] then [] else [cur])"
| "split_ws_acc cur (c # cs) =
     (if is_space c then (if cur = [] then split_ws_acc [] cs else cur # split_ws_acc [] cs)
      else split_ws_acc (cur @ [c]) cs)"

definition split_ws :: "string \<Rightarrow> string list" where
  "split_ws s = split_ws_acc [] s"

subsection \<open>\<^verbatim>\<open>float(str)\<close>\<close>

definition digit_val :: "char \<Rightarrow> int" where
  "digit_val c = (case map_of (zip ''0123456789'' [0, 1, 2, 3, 4, 5, 6, 7, 8, 9]) c of
                    Some d \<Rightarrow> d | None \<Rightarrow> 0)"

definition digits_val :: "string \<Rightarrow> int" where
  "digits_val ds = foldl (\<lambda>acc c. 10 * acc + digit_val c) 0 ds"

text \<open>
  \<^verbatim>\<open>float(s)\<close> on a string, \<open>None\<close> for \<^verbatim>\<open>ValueError\<close>: surrounding whitespace,
  an optional sign, a decimal with digits on at least one side of the point, an optional
  exponent.  The literals \<^verbatim>\<open>inf\<close>, \<^verbatim>\<open>nan\<close> and digit groups joined by underscores,
  which Python also accepts, are not time values and are left out: the model answers
  \<open>None\<close> on them.
\<close>

definition split_sign :: "string \<Rightarrow> bool \<times> string" where
  "split_sign s =
     (case s of
        c # cs \<Rightarrow> (if c = CHR ''-'' then (True, cs) else if c = CHR ''+'' then (False, cs)
                   else (False, s))
      | [] \<Rightarrow> (False, s))"

definition parse_exponent :: "string \<Rightarrow> int option" where
  "parse_exponent r =
     (case r of
        [] \<Rightarrow> Some 0
      | c # cs \<Rightarrow>
          (if c = CHR ''e'' \<or> c = CHR ''E'' then
             (let (neg, ds) = split_sign cs in
              if ds \<noteq> [] \<and> list_all is_digit ds
              then Some (if neg then - digits_val ds else digits_val ds)
              else None)
           else None))"

definition pow10 :: "int \<Rightarrow> rat" where
  "pow10 e = (if 0 \<le> e then 10 ^ nat e else 1 / 10 ^ nat (- e))"

definition pyfloat :: "string \<Rightarrow> rat option" where
  "pyfloat s =
     (let (neg, u) = split_sign (strip s);
          ip = takeWhile is_digit u;
          r1 = dropWhile is_digit u;
          has_dot = (r1 \<noteq> [] \<and> hd r1 = CHR ''.'');
          fp = (if has_dot then takeWhile is_digit (tl r1) else []);
          r2 = (if has_dot then dropWhile is_digit (tl r1) else r1)
      in if ip = [] \<and> fp = [] then None
         else (case parse_exponent r2 of
                 None \<Rightarrow> None
               | Some e \<Rightarrow>
                   (let m = of_int (digits_val ip) + of_int (digits_val fp) / 10 ^ length fp;
                        v = m * pow10 e
                    in Some (if neg then - v else v))))"

subsection \<open>Floating-point arithmetic\<close>

text \<open>\<^verbatim>\<open>round(x)\<close> of a float: to the nearest integer, a tie to the even one.\<close>

definition py_round :: "rat \<Rightarrow> int" where
  "py_round x =
     (let f = \<lfloor>x\<rfloor>; r = x - of_int f
      in if r < 1 / 2 then f
         else if 1 / 2 < r then f + 1
         else if even f then f else f + 1)"

definition pow2 :: "int \<Rightarrow> rat" where
  "pow2 e = (if 0 \<le> e then 2 ^ nat e else 1 / 2 ^ nat (- e))"

text \<open>
  The integer part of the binary logarithm of a positive rational, from the bit length
  (\<open>floorlog 2\<close>) of \<open>\<lfloor>x\<rfloor>\<close>, or of \<open>\<lceil>1 / x\<rceil> - 1\<close> when \<open>x < 1\<close>.
\<close>

definition log2_floor :: "rat \<Rightarrow> int" where
  "log2_floor x =
     (if 1 \<le> x then int (floorlog 2 (nat \<lfloor>x\<rfloor>)) - 1
      else - int (floorlog 2 (nat (\<lceil>1 / x\<rceil> - 1))))"

text \<open>
  The IEEE double nearest to a rational, a tie to the even significand: 53 significant
  bits.  Overflow and subnormal numbers are not modelled; the times of this program are
  far from both.
\<close>

definition round_double :: "rat \<Rightarrow> rat" where
  "round_double x =
     (if x = 0 then 0
      else (let e = log2_floor \<bar>x\<bar> - 52;
                m = py_round (\<bar>x\<bar> / pow2 e)
            in (if x < 0 then - 1 else 1) * of_int m * pow2 e))"

text \<open>
  The operations of the machine on floats: \<open>lit\<close> is the float that a decimal literal of
  the source denotes, \<open>fadd\<close>, \<open>fsub\<close> and \<open>fmul\<close> are \<^verbatim>\<open>+\<close>, \<^verbatim>\<open>-\<close> and \<^verbatim>\<open>*\<close>, and
  \<open>np_arange\<close> is \<^verbatim>\<open>numpy.arange(start, stop, step)\<close>.  Comparisons of floats are
  comparisons of the numbers they denote.
\<close>

record arith =
  lit :: "rat \<Rightarrow> rat"
  fadd :: "rat \<Rightarrow> rat \<Rightarrow> rat"
  fsub :: "rat \<Rightarrow> rat \<Rightarrow> rat"
  fmul :: "rat \<Rightarrow> rat \<Rightarrow> rat"
  np_arange :: "rat \<Rightarrow> rat \<Rightarrow> rat \<Rightarrow> rat list"

text \<open>
  \<^verbatim>\<open>numpy.arange\<close> on doubles: the length is \<open>\<lceil>(stop - start) / step\<rceil>\<close>, the first
  two values are \<open>start\<close> and \<open>start + step\<close>, and value \<open>i\<close> is \<open>start + i * delta\<close>
  for the difference \<open>delta\<close> of the first two, every operation rounded.
\<close>

definition double_arange :: "rat \<Rightarrow> rat \<Rightarrow> rat \<Rightarrow> rat list" where
  "double_arange start stop step =
     (let n = nat \<lceil>round_double (round_double (stop - start) / step)\<rceil>;
          second = round_double (start + step);
          delta = round_double (second - start)
      in map (\<lambda>i. if i = 0 then start
                  else if i = 1 then second
                  else round_double (start + round_double (of_nat i * delta))) [0 ..< n])"

definition double_arith :: arith where
  "double_arith =
     \<lparr>lit = round_double,
      fadd = (\<lambda>x y. round_double (x + y)),
      fsub = (\<lambda>x y. round_double (x - y)),
      fmul = (\<lambda>x y. round_double (x * y)),
      np_arange = double_arange\<rparr>"

subsection \<open>\<^verbatim>\<open>sequence_and_assemble_verbose.py\<close>: \<^verbatim>\<open>TIME_RE\<close> and \<^verbatim>\<open>parse_time\<close>\<close>

text \<open>
  The tail \<^verbatim>\<open>(\d+(?:\.\d+)?)$\<close> of \<^verbatim>\<open>TIME_RE\<close>: the whole rest of the string is
  digits, optionally followed by a point and digits.
\<close>

definition re_seconds :: "string \<Rightarrow> bool" where
  "re_seconds s =
     (let ip = takeWhile is_digit s; r = dropWhile is_digit s
      in ip \<noteq> [] \<and>
         (r = [] \<or> (hd r = CHR ''.'' \<and> tl r \<noteq> [] \<and> list_all is_digit (tl r))))"

text \<open>
  A digit run followed by a colon, as \<^verbatim>\<open>(\d+):\<close> or \<^verbatim>\<open>(\d{1,2}):\<close> match it at
  the head of a string: the run is maximal because the next character has to be the colon.
  The result is the run and the text after the colon.
\<close>

definition re_field :: "string \<Rightarrow> (string \<times> string) option" where
  "re_field s =
     (let ds = takeWhile is_digit s; r = dropWhile is_digit s
      in if ds \<noteq> [] \<and> r \<noteq> [] \<and> hd r = CHR '':'' then Some (ds, tl r) else None)"

text \<open>
  \<^verbatim>\<open>TIME_RE = ^(?:(\d+):)?(?:(\d{1,2}):)?(\d+(?:\.\d+)?)$\<close>, with the groups
  \<^verbatim>\<open>(h, m_, s_)\<close> of the first match in the backtracking order of \<^verbatim>\<open>re\<close>: both
  optional groups are greedy, so the matcher tries the first group present before absent,
  and inside each the second group present before absent.
\<close>

definition TIME_RE :: "string \<Rightarrow> (string option \<times> string option \<times> string) option" where
  "TIME_RE s =
     (let with_second = (\<lambda>h r.
            (case re_field r of
               Some (m, r') \<Rightarrow>
                 (if length m \<le> 2 \<and> re_seconds r' then Some (h, Some m, r')
                  else if re_seconds r then Some (h, None, r) else None)
             | None \<Rightarrow> (if re_seconds r then Some (h, None, r) else None)))
      in case re_field s of
           Some (h, r) \<Rightarrow>
             (case with_second (Some h) r of
                Some g \<Rightarrow> Some g
              | None \<Rightarrow> with_second None s)
         | None \<Rightarrow> with_second None s)"

text \<open>The string branch of \<^verbatim>\<open>parse_time\<close>.\<close>

definition parse_time_str :: "string \<Rightarrow> rat option" where
  "parse_time_str v =
     (let s = lower (strip v) in
      if endswith s ''ms'' then
        (case pyfloat (drop_last 2 s) of Some x \<Rightarrow> Some (x / 1000) | None \<Rightarrow> None)
      else
        (case (if endswith s ''s'' then pyfloat (drop_last 1 s) else None) of
           Some x \<Rightarrow> Some x
         | None \<Rightarrow>
             (case pyfloat s of
                Some x \<Rightarrow> Some x
              | None \<Rightarrow>
                  (case TIME_RE s of
                     Some (h, m_, s_) \<Rightarrow>
                       (case pyfloat s_ of
                          None \<Rightarrow> None
                        | Some secs \<Rightarrow>
                            (let secs1 = (case m_ of
                                            Some m \<Rightarrow> (case pyfloat m of
                                                         Some x \<Rightarrow> secs + 60 * x
                                                       | None \<Rightarrow> secs)
                                          | None \<Rightarrow> secs);
                                 secs2 = (case h of
                                            Some hh \<Rightarrow> (case pyfloat hh of
                                                          Some x \<Rightarrow> secs1 + 3600 * x
                                                        | None \<Rightarrow> secs1)
                                          | None \<Rightarrow> secs1)
                             in Some secs2))
                   | None \<Rightarrow> None))))"

text \<open>The first result that is not \<open>None\<close>: a \<^verbatim>\<open>for\<close> statement with an early return.\<close>

fun first_some :: "'a option list \<Rightarrow> 'a option" where
  "first_some [] = None"
| "first_some (Some x # _) = Some x"
| "first_some (None # xs) = first_some xs"

definition time_keys :: "string list" where
  "time_keys = [''value'', ''val'', ''sec'', ''secs'', ''second'', ''seconds'', ''s'', ''ms'',
                ''start'', ''end'', ''t0'', ''t1'', ''time'', ''timestamp'', ''duration'']"

text \<open>
  \<^verbatim>\<open>parse_time\<close>.  A bool is an \<^verbatim>\<open>int\<close> in Python.  In the dict branch the source
  calls \<^verbatim>\<open>parse_time\<close> on the values it looks up; the function is pure, so the model
  parses every value once (\<open>pv\<close>) and runs the three lookups of the source on the
  results: the listed keys in order (\<^verbatim>\<open>v.get(k)\<close> of a missing key is \<^verbatim>\<open>None\<close>, which
  parses to \<^verbatim>\<open>None\<close>), the sole value of a one-entry dict, then all values in order.
  A dict that yields nothing falls through to \<^verbatim>\<open>return None\<close>.
\<close>

fun parse_time :: "json \<Rightarrow> rat option" where
  "parse_time JNull = None"
| "parse_time (JBool b) = Some (if b then 1 else 0)"
| "parse_time (JNum x) = Some x"
| "parse_time (JStr v) = parse_time_str v"
| "parse_time (JObj kvs) =
     (let pv = map (\<lambda>kv. (fst kv, parse_time (snd kv))) kvs in
      case first_some (map (\<lambda>k. case map_of pv k of Some r \<Rightarrow> r | None \<Rightarrow> None) time_keys) of
        Some t \<Rightarrow> Some t
      | None \<Rightarrow> (if length kvs = 1 then snd (hd pv) else first_some (map snd pv)))"
| "parse_time (JArr vs) = (case vs of [] \<Rightarrow> None | v # _ \<Rightarrow> parse_time v)"

subsection \<open>\<^verbatim>\<open>sequence_and_assemble.py\<close>: \<^verbatim>\<open>coerce_float\<close>\<close>

definition coerce_keys :: "string list" where
  "coerce_keys = [''value'', ''val'', ''sec'', ''secs'', ''second'', ''seconds'', ''s'',
                  ''start'', ''end'']"

text \<open>
  \<^verbatim>\<open>coerce_float(v, f)\<close>.  As in \<open>parse_time\<close> the values of a dict are coerced
  once; a key of the list that the dict lacks is skipped (\<^verbatim>\<open>if k in v\<close>).
\<close>

fun coerce_float :: "json \<Rightarrow> rat option \<Rightarrow> rat option" where
  "coerce_float JNull f = f"
| "coerce_float (JBool b) f = Some (if b then 1 else 0)"
| "coerce_float (JNum x) f = Some x"
| "coerce_float (JStr v) f = (case pyfloat (strip v) of Some x \<Rightarrow> Some x | None \<Rightarrow> f)"
| "coerce_float (JArr vs) f = (case vs of [] \<Rightarrow> f | v # _ \<Rightarrow> coerce_float v f)"
| "coerce_float (JObj kvs) f =
     (let pv = map (\<lambda>kv. (fst kv, coerce_float (snd kv) f)) kvs in
      case first_some (map (\<lambda>k. case map_of pv k of Some r \<Rightarrow> r | None \<Rightarrow> None) coerce_keys) of
        Some t \<Rightarrow> Some t
      | None \<Rightarrow> (if length kvs = 1 then snd (hd pv) else f))"

subsection \<open>\<^verbatim>\<open>sequence_and_assemble_verbose.py\<close>: items, fallback, \<^verbatim>\<open>main\<close>\<close>

text \<open>
  One entry of \<^verbatim>\<open>raw_items\<close> as \<^verbatim>\<open>load_items\<close> builds it:
  \<^verbatim>\<open>{"meta", "path", "t0", "t1", "src0", "src1"}\<close>; \<open>None\<close> is Python's \<^verbatim>\<open>None\<close>.
\<close>

record item =
  meta :: string
  path :: "string option"
  t0 :: "rat option"
  t1 :: "rat option"
  src0 :: string
  src1 :: string


definition need_fallback :: "item list \<Rightarrow> bool" where
  "need_fallback items = list_ex (\<lambda>i. t0 i = None \<or> t1 i = None) items"

text \<open>
  The sort key \<^verbatim>\<open>Path(i["path"]).name if i["path"] else i["meta"]\<close>.  The final
  path component is computed by \<^verbatim>\<open>pathlib\<close> for the platform the script runs on; it
  is the parameter \<open>name\<close>.
\<close>

definition fallback_key :: "(string \<Rightarrow> string) \<Rightarrow> item \<Rightarrow> string" where
  "fallback_key name i =
     (case path i of
        None \<Rightarrow> meta i
      | Some p \<Rightarrow> (if p \<noteq> [] then name p else meta i))"

text \<open>
  The loop over \<^verbatim>\<open>items_sorted\<close> with the running time \<open>t\<close>: \<^verbatim>\<open>t + DEFAULT_DUR\<close> is
  a float addition, computed for \<open>t1\<close> and again for the next \<open>t\<close>.
  \<^verbatim>\<open>it.get("src0", ...)\<close> finds the key, which \<^verbatim>\<open>load_items\<close> always sets, so \<open>src0\<close>
  and \<open>src1\<close> stay.
\<close>

fun assign_slots :: "arith \<Rightarrow> rat \<Rightarrow> rat \<Rightarrow> item list \<Rightarrow> item list" where
  "assign_slots fl D t [] = []"
| "assign_slots fl D t (it # its) =
     it\<lparr>t0 := Some t, t1 := Some (fadd fl t D)\<rparr> # assign_slots fl D (fadd fl t D) its"

text \<open>
  \<^verbatim>\<open>apply_sequential_fallback\<close>, with \<^verbatim>\<open>DEFAULT_DUR\<close> as the parameter \<open>D\<close>.
  Python's \<^verbatim>\<open>sorted\<close> is stable, as \<open>sort_key\<close> is.
\<close>

definition apply_sequential_fallback ::
  "arith \<Rightarrow> rat \<Rightarrow> (string \<Rightarrow> string) \<Rightarrow> item list \<Rightarrow> item list \<times> bool" where
  "apply_sequential_fallback fl D name items =
     (if \<not> need_fallback items then (items, False)
      else (assign_slots fl D 0 (sort_key (fallback_key name) items), True))"

datatype py_error =
    SystemExit nat
  | IndexError
  | KeyError string
  | TypeError
  | AttributeError
  | ZeroDivisionError





subsection \<open>\<^verbatim>\<open>smart_sequence_clips.py\<close>: the transition score\<close>

text \<open>
  The analysis of one frame, as \<^verbatim>\<open>analyze_clip.py\<close> asks for it in its JSON schema:
  string attributes and a list of colour names.  \<open>None\<close> is an absent key, which
  \<^verbatim>\<open>.get(key, '')\<close> and \<^verbatim>\<open>.get('dominant_colors', [])\<close> turn into the empty value.
\<close>

record frame =
  subject :: "string option"
  scene_type :: "string option"
  lighting :: "string option"
  motion :: "string option"
  dominant_colors :: "string list option"

record clip =
  clip_file :: string
  start_frame :: frame
  end_frame :: frame
  base :: string

definition get_str :: "string option \<Rightarrow> string" where
  "get_str v = (case v of None \<Rightarrow> [] | Some s \<Rightarrow> s)"

definition get_list :: "string list option \<Rightarrow> string list" where
  "get_list v = (case v of None \<Rightarrow> [] | Some xs \<Rightarrow> xs)"

definition similar_subjects :: "string \<Rightarrow> string \<Rightarrow> bool" where
  "similar_subjects subj_a subj_b =
     (if subj_a = [] \<or> subj_b = [] then False
      else card (set (split_ws (lower subj_a)) \<inter> set (split_ws (lower subj_b))) > 0)"

definition bright :: "string set" where
  "bright = {''bright'', ''daylight'', ''sunny'', ''well-lit''}"

definition dim :: "string set" where
  "dim = {''dim'', ''dark'', ''low-light'', ''evening'', ''night''}"

definition compatible_lighting :: "string \<Rightarrow> string \<Rightarrow> bool" where
  "compatible_lighting light_a light_b =
     (if light_a \<in> bright \<and> light_b \<in> bright then True
      else if light_a \<in> dim \<and> light_b \<in> dim then True
      else False)"

definition slow_motions :: "string set" where
  "slow_motions = {''slow'', ''gentle'', ''calm'', ''still'', ''steady''}"

definition fast_motions :: "string set" where
  "fast_motions = {''fast'', ''quick'', ''rapid'', ''dynamic'', ''energetic''}"

definition motion_compatibility :: "string \<Rightarrow> string \<Rightarrow> rat" where
  "motion_compatibility motion_a motion_b =
     (if motion_a = [] \<or> motion_b = [] then 1 / 2
      else if motion_a = motion_b then 1
      else if motion_a \<in> slow_motions \<and> motion_b \<in> slow_motions then 4 / 5
      else if motion_a \<in> fast_motions \<and> motion_b \<in> fast_motions then 4 / 5
      else if (motion_a \<in> slow_motions \<and> motion_b \<in> fast_motions) \<or>
              (motion_a \<in> fast_motions \<and> motion_b \<in> slow_motions) then 1 / 5
      else 1 / 2)"

definition color_harmony :: "string list \<Rightarrow> string list \<Rightarrow> rat" where
  "color_harmony colors_a colors_b =
     (if colors_a = [] \<or> colors_b = [] then 1 / 2
      else
        (let matches = card (set colors_a \<inter> set colors_b);
             max_possible = min (length colors_a) (length colors_b)
         in if max_possible = 0 then 1 / 2
            else of_nat matches / of_nat max_possible))"

text \<open>
  The five increments of \<^verbatim>\<open>score\<close> in \<^verbatim>\<open>calculate_transition_score\<close>, one
  definition per numbered block of the source, on \<^verbatim>\<open>end_a\<close> and \<^verbatim>\<open>start_b\<close>.
\<close>

definition subject_part :: "frame \<Rightarrow> frame \<Rightarrow> rat" where
  "subject_part end_a start_b =
     (if get_str (subject end_a) = get_str (subject start_b) then 3 / 10
      else if similar_subjects (get_str (subject end_a)) (get_str (subject start_b)) then 3 / 20
      else 0)"

definition scene_part :: "frame \<Rightarrow> frame \<Rightarrow> rat" where
  "scene_part end_a start_b =
     (if get_str (scene_type end_a) = get_str (scene_type start_b) then 1 / 4 else 0)"

definition lighting_part :: "frame \<Rightarrow> frame \<Rightarrow> rat" where
  "lighting_part end_a start_b =
     (if get_str (lighting end_a) = get_str (lighting start_b) then 1 / 5
      else if compatible_lighting (get_str (lighting end_a)) (get_str (lighting start_b))
      then 1 / 10
      else 0)"

definition motion_part :: "frame \<Rightarrow> frame \<Rightarrow> rat" where
  "motion_part end_a start_b =
     motion_compatibility (get_str (motion end_a)) (get_str (motion start_b)) * (3 / 20)"

definition color_part :: "frame \<Rightarrow> frame \<Rightarrow> rat" where
  "color_part end_a start_b =
     color_harmony (get_list (dominant_colors end_a)) (get_list (dominant_colors start_b))
       * (1 / 10)"

definition calculate_transition_score :: "clip \<Rightarrow> clip \<Rightarrow> rat" where
  "calculate_transition_score clip_a clip_b =
     (let end_a = end_frame clip_a; start_b = start_frame clip_b
      in min 1 (0 + subject_part end_a start_b + scene_part end_a start_b
                  + lighting_part end_a start_b + motion_part end_a start_b
                  + color_part end_a start_b))"

subsection \<open>\<^verbatim>\<open>smart_sequence_clips.py\<close>: the greedy sequence and its transitions\<close>

text \<open>
  The inner \<^verbatim>\<open>for i, candidate in enumerate(remaining)\<close> loop, carrying
  \<^verbatim>\<open>best_score\<close> and \<^verbatim>\<open>best_idx\<close> (\<open>None\<close> for the initial \<^verbatim>\<open>-1\<close>, when
  \<^verbatim>\<open>best_clip\<close> is still \<^verbatim>\<open>None\<close>).
\<close>

fun scan_best :: "clip \<Rightarrow> rat \<Rightarrow> nat option \<Rightarrow> nat \<Rightarrow> clip list \<Rightarrow> rat \<times> nat option" where
  "scan_best current_clip best_score best_idx i [] = (best_score, best_idx)"
| "scan_best current_clip best_score best_idx i (candidate # rest) =
     (let score = calculate_transition_score current_clip candidate
      in if score > best_score then scan_best current_clip score (Some i) (Suc i) rest
         else scan_best current_clip best_score best_idx (Suc i) rest)"

text \<open>\<^verbatim>\<open>remaining.pop(i)\<close>: the list without its element at index \<open>i\<close>.\<close>

definition pop :: "nat \<Rightarrow> 'a list \<Rightarrow> 'a list" where
  "pop i xs = take i xs @ drop (Suc i) xs"

text \<open>
  The \<^verbatim>\<open>while remaining\<close> loop.  A clip is a dict with five keys and therefore true,
  so \<^verbatim>\<open>if best_clip\<close> asks whether a candidate was chosen; the \<^verbatim>\<open>else\<close> branch
  takes the head of \<^verbatim>\<open>remaining\<close>.
\<close>

function sequence_loop :: "clip list \<Rightarrow> clip list \<Rightarrow> clip list" where
  "sequence_loop sequence remaining =
     (if remaining = [] then sequence
      else
        (case snd (scan_best (last sequence) (- 1) None 0 remaining) of
           Some best_idx \<Rightarrow>
             sequence_loop (sequence @ [remaining ! best_idx]) (pop best_idx remaining)
         | None \<Rightarrow> sequence_loop (sequence @ [hd remaining]) (pop 0 remaining)))"
  by pat_completeness auto
termination
proof (relation "measure (\<lambda>(sequence, remaining). length remaining)")
  show "wf (measure (\<lambda>(sequence, remaining). length remaining))"
    by simp
next
  fix sequence remaining :: "clip list" and best_idx :: nat
  assume ne: "remaining \<noteq> []"
    and best: "snd (scan_best (last sequence) (- 1) None 0 remaining) = Some best_idx"
  have bound: "snd (scan_best cur bs bi i cs) = Some j \<Longrightarrow> bi = Some j \<or> j < i + length cs"
    for cur bs bi i cs j
    by (induction cs arbitrary: bs bi i) (fastforce simp: Let_def split: if_splits)+
  from bound [OF best] have "best_idx < length remaining"
    by simp
  then show "((sequence @ [remaining ! best_idx], pop best_idx remaining), (sequence, remaining))
      \<in> measure (\<lambda>(sequence, remaining). length remaining)"
    by (simp add: pop_def)
next
  fix sequence remaining :: "clip list"
  assume "remaining \<noteq> []"
  then show "((sequence @ [hd remaining], pop 0 remaining), (sequence, remaining))
      \<in> measure (\<lambda>(sequence, remaining). length remaining)"
    by (cases remaining) (simp_all add: pop_def)
qed

definition find_optimal_sequence :: "clip list \<Rightarrow> clip list" where
  "find_optimal_sequence clips =
     (if length clips \<le> 1 then clips else sequence_loop [hd clips] (tl clips))"

datatype transition_type = cut | crossfade | fade_black

record transition =
  from_clip :: string
  to_clip :: string
  type :: transition_type
  duration :: rat
  score :: rat

definition make_transition :: "clip \<Rightarrow> clip \<Rightarrow> transition" where
  "make_transition current next_clip =
     (let score = calculate_transition_score current next_clip
      in if score > 4 / 5 then
           \<lparr>from_clip = base current, to_clip = base next_clip, type = cut,
            duration = 0, score = score\<rparr>
         else if score > 1 / 2 then
           \<lparr>from_clip = base current, to_clip = base next_clip, type = crossfade,
            duration = 1 / 2, score = score\<rparr>
         else
           \<lparr>from_clip = base current, to_clip = base next_clip, type = fade_black,
            duration = 3 / 10, score = score\<rparr>)"

text \<open>\<^verbatim>\<open>for i in range(len(sequence) - 1)\<close> over the pairs \<open>(sequence[i], sequence[i+1])\<close>.\<close>

fun generate_transitions :: "clip list \<Rightarrow> transition list" where
  "generate_transitions (current # next_clip # rest) =
     make_transition current next_clip # generate_transitions (next_clip # rest)"
| "generate_transitions _ = []"

subsection \<open>\<^verbatim>\<open>smart_loop_trimmer.py\<close>: \<^verbatim>\<open>find_clean_motion_segment\<close>\<close>

text \<open>
  What the frame probes of one video do, as far as the function can observe it.
  \<open>ref_ok\<close>: \<^verbatim>\<open>extract_frame(video_path, 0.1, first_frame)\<close> returns (it stands
  outside the inner \<^verbatim>\<open>try\<close> blocks).  \<open>start_probe t\<close> and \<open>end_probe t\<close>: the probe at
  time \<open>t\<close> in the start scan and in the end scan, \<open>None\<close> when \<^verbatim>\<open>extract_frame\<close>
  raises (the inner \<^verbatim>\<open>except\<close> swallows it), otherwise the value of
  \<^verbatim>\<open>calculate_frame_similarity\<close>, which is \<open>0\<close> for an unreadable frame.
  \<open>cleanup_ok\<close>: the removal of the temporary files and directory returns.
\<close>

record probes =
  ref_ok :: bool
  start_probe :: "rat \<Rightarrow> rat option"
  end_probe :: "rat \<Rightarrow> rat option"
  cleanup_ok :: bool

text \<open>
  The start scan over \<^verbatim>\<open>[0.2, 0.4, 0.6, 0.8, 1.0]\<close>: \<^verbatim>\<open>break\<close> at the first time
  that reaches \<^verbatim>\<open>duration * 0.8\<close> or at the first similarity below 0.85.
\<close>

fun start_scan ::
  "arith \<Rightarrow> (rat \<Rightarrow> rat option) \<Rightarrow> rat \<Rightarrow> rat \<Rightarrow> rat list \<Rightarrow> rat" where
  "start_scan fl pr dur motion_start [] = motion_start"
| "start_scan fl pr dur motion_start (check_time # rest) =
     (if check_time \<ge> fmul fl dur (lit fl (4 / 5)) then motion_start
      else
        (case pr check_time of
           Some similarity \<Rightarrow>
             (if similarity < lit fl (17 / 20) then check_time
              else start_scan fl pr dur motion_start rest)
         | None \<Rightarrow> start_scan fl pr dur motion_start rest))"

text \<open>The end scan, carrying \<^verbatim>\<open>(motion_end, max_difference)\<close>.\<close>

fun end_scan ::
  "arith \<Rightarrow> (rat \<Rightarrow> rat option) \<Rightarrow> rat \<times> rat \<Rightarrow> rat list \<Rightarrow> rat \<times> rat" where
  "end_scan fl pr (motion_end, max_difference) [] = (motion_end, max_difference)"
| "end_scan fl pr (motion_end, max_difference) (check_time # rest) =
     (case pr check_time of
        Some similarity \<Rightarrow>
          (let difference = fsub fl 1 similarity
           in if difference > max_difference
              then end_scan fl pr (fadd fl check_time (lit fl (1 / 5)), difference) rest
              else end_scan fl pr (motion_end, max_difference) rest)
      | None \<Rightarrow> end_scan fl pr (motion_end, max_difference) rest)"

text \<open>
  \<^verbatim>\<open>find_clean_motion_segment\<close>: the result \<open>(motion_start, clean_duration,
  max_difference)\<close>.  An exception outside the inner \<^verbatim>\<open>try\<close> blocks reaches the outer
  \<^verbatim>\<open>except\<close>, which returns \<^verbatim>\<open>(duration * 0.2, duration * 0.6, 0.0)\<close>.
\<close>

definition find_clean_motion_segment :: "arith \<Rightarrow> probes \<Rightarrow> rat \<Rightarrow> rat \<times> rat \<times> rat" where
  "find_clean_motion_segment fl pr dur =
     (if \<not> ref_ok pr then (fmul fl dur (lit fl (1 / 5)), fmul fl dur (lit fl (3 / 5)), 0)
      else
        (let motion_start0 =
               start_scan fl (start_probe pr) dur (fmul fl dur (lit fl (1 / 10)))
                 (map (lit fl) [1 / 5, 2 / 5, 3 / 5, 4 / 5, 1]);
             (motion_end0, max_difference) =
               end_scan fl (end_probe pr) (fmul fl dur (lit fl (7 / 10)), 0)
                 (np_arange fl (fadd fl motion_start0 (lit fl (1 / 2)))
                    (fmul fl dur (lit fl (17 / 20))) (lit fl (3 / 20)));
             motion_start = max motion_start0 (fmul fl dur (lit fl (1 / 20)));
             motion_end1 = min motion_end0 (fmul fl dur (lit fl (17 / 20)));
             motion_end = max motion_end1 (fadd fl motion_start 1);
             clean_duration = fsub fl motion_end motion_start
         in if cleanup_ok pr then (motion_start, clean_duration, max_difference)
            else (fmul fl dur (lit fl (1 / 5)), fmul fl dur (lit fl (3 / 5)), 0)))"

subsection \<open>\<^verbatim>\<open>smart_loop_trimmer.py\<close>: the refinement pass over a smart manifest\<close>

text \<open>
  The machine, the file system and the media tools, as the pass sees them: the float
  operations, \<^verbatim>\<open>os.path.exists\<close>, \<^verbatim>\<open>get_video_duration\<close> (which already substitutes
  5.0 on failure) and the probes of each video.
\<close>

record media =
  float_ops :: arith
  path_exists :: "string \<Rightarrow> bool"
  video_duration :: "string \<Rightarrow> rat"
  video_probes :: "string \<Rightarrow> probes"

text \<open>\<^verbatim>\<open>d[k] = v\<close> on a dict: \<open>AList.update\<close> replaces in place or appends.\<close>

definition dict_set :: "string \<Rightarrow> json \<Rightarrow> (string \<times> json) list \<Rightarrow> (string \<times> json) list" where
  "dict_set k v d = AList.update k v d"

text \<open>
  One round of the loop over \<^verbatim>\<open>items\<close>: \<open>Inr None\<close> for \<^verbatim>\<open>continue\<close>,
  \<open>Inr (Some (new_item, total_trimmed))\<close> for an item that is kept, \<open>Inl\<close> for an
  exception.  The manifest schema makes \<^verbatim>\<open>path\<close> a string and \<^verbatim>\<open>t0\<close> a number;
  the model raises \<^verbatim>\<open>TypeError\<close> on a \<^verbatim>\<open>path\<close> that is true and not a string and on a
  \<^verbatim>\<open>t0\<close> that is not a number, and \<^verbatim>\<open>AttributeError\<close> on an item that is no dict.
\<close>

definition process_item ::
  "media \<Rightarrow> json \<Rightarrow> py_error + ((string \<times> json) list \<times> rat) option" where
  "process_item env item =
     (case item of
        JObj d \<Rightarrow>
          (let keep = (\<lambda>video_path.
                 (let original_duration = video_duration env video_path;
                      (start_trim, clean_duration, motion_strength) =
                        find_clean_motion_segment (float_ops env) (video_probes env video_path)
                          original_duration;
                      new_item = dict_set ''motion_strength'' (JNum motion_strength)
                                  (dict_set ''clean_duration'' (JNum clean_duration)
                                    (dict_set ''start_trim'' (JNum start_trim)
                                      (dict_set ''original_duration'' (JNum original_duration) d)))
                  in case map_of new_item ''t0'' of
                       None \<Rightarrow> Inl (KeyError ''t0'')
                     | Some (JNum x) \<Rightarrow>
                         Inr (Some (dict_set ''t1''
                                      (JNum (fadd (float_ops env) x clean_duration)) new_item,
                                    fsub (float_ops env) original_duration clean_duration))
                     | Some (JBool b) \<Rightarrow>
                         Inr (Some (dict_set ''t1''
                                      (JNum (fadd (float_ops env) (if b then 1 else 0)
                                               clean_duration)) new_item,
                                    fsub (float_ops env) original_duration clean_duration))
                     | Some _ \<Rightarrow> Inl TypeError))
           in case map_of d ''path'' of
                None \<Rightarrow> Inr None
              | Some JNull \<Rightarrow> Inr None
              | Some (JStr video_path) \<Rightarrow>
                  (if video_path = [] then Inr None
                   else if path_exists env video_path then keep video_path
                   else Inr None)
              | Some (JBool b) \<Rightarrow> (if b then Inl TypeError else Inr None)
              | Some (JNum x) \<Rightarrow> (if x = 0 then Inr None else Inl TypeError)
              | Some (JArr xs) \<Rightarrow> (if xs = [] then Inr None else Inl TypeError)
              | Some (JObj kvs) \<Rightarrow> (if kvs = [] then Inr None else Inl TypeError))
      | _ \<Rightarrow> Inl AttributeError)"

text \<open>The loop, carrying \<^verbatim>\<open>(processed_items, total_saved_time)\<close>.\<close>

fun process_items ::
  "media \<Rightarrow> json list \<times> rat \<Rightarrow> json list \<Rightarrow> py_error + (json list \<times> rat)" where
  "process_items env (processed_items, total_saved_time) [] =
     Inr (processed_items, total_saved_time)"
| "process_items env (processed_items, total_saved_time) (item # rest) =
     (case process_item env item of
        Inl e \<Rightarrow> Inl e
      | Inr None \<Rightarrow> process_items env (processed_items, total_saved_time) rest
      | Inr (Some (new_item, total_trimmed)) \<Rightarrow>
          process_items env
            (processed_items @ [JObj new_item],
             fadd (float_ops env) total_saved_time total_trimmed) rest)"

text \<open>
  What \<^verbatim>\<open>process_smart_manifest_with_loop_detection\<close> leaves behind: the manifest it
  wrote to \<^verbatim>\<open>smart_manifest_loop_trimmed.json\<close> (if it got that far) and the exception
  it ended with (\<open>None\<close> when it returns the path).
\<close>

record pass =
  written :: "(string \<times> json) list option"
  raised :: "py_error option"

text \<open>
  The pass on the loaded \<^verbatim>\<open>manifest_data\<close>.  \<^verbatim>\<open>die\<close> is \<^verbatim>\<open>sys.exit(2)\<close>; an
  \<^verbatim>\<open>items\<close> value that is true and no list cannot be iterated as items, and the model
  raises \<^verbatim>\<open>TypeError\<close> on it.  After
  \<^verbatim>\<open>json.dump\<close> the summary divides \<^verbatim>\<open>total_saved_time\<close> by
  \<^verbatim>\<open>len(processed_items)\<close>.
\<close>

definition process_smart_manifest_with_loop_detection ::
  "media \<Rightarrow> (string \<times> json) list \<Rightarrow> pass" where
  "process_smart_manifest_with_loop_detection env manifest_data =
     (case (case map_of manifest_data ''items'' of None \<Rightarrow> JArr [] | Some v \<Rightarrow> v) of
        JArr items \<Rightarrow>
          (if items = [] then \<lparr>written = None, raised = Some (SystemExit 2)\<rparr>
           else
             (case process_items env ([], 0) items of
                Inl e \<Rightarrow> \<lparr>written = None, raised = Some e\<rparr>
              | Inr (processed_items, total_saved_time) \<Rightarrow>
                  (let out =
                         dict_set ''loop_detection''
                           (JObj [(''total_clips'', JNum (of_nat (length processed_items))),
                                  (''total_time_saved'', JNum total_saved_time),
                                  (''trimming_method'', JStr ''start_and_end'')])
                           (dict_set ''items'' (JArr processed_items) manifest_data)
                   in if length processed_items = 0
                      then \<lparr>written = Some out, raised = Some ZeroDivisionError\<rparr>
                      else \<lparr>written = Some out, raised = None\<rparr>)))
      | v \<Rightarrow> (if truthy v then \<lparr>written = None, raised = Some TypeError\<rparr>
              else \<lparr>written = None, raised = Some (SystemExit 2)\<rparr>))"

subsection \<open>\<^verbatim>\<open>stitch_from_manifest.py\<close> and \<^verbatim>\<open>create_trimmed_video\<close>: the order of the inputs\<close>

text \<open>\<^verbatim>\<open>float(v)\<close> on a JSON value; \<^verbatim>\<open>ValueError\<close> is reported as \<open>TypeError\<close>.\<close>

definition float_of :: "json \<Rightarrow> py_error + rat" where
  "float_of v =
     (case v of
        JNum x \<Rightarrow> Inr x
      | JBool b \<Rightarrow> Inr (if b then 1 else 0)
      | JStr s \<Rightarrow> (case pyfloat s of Some x \<Rightarrow> Inr x | None \<Rightarrow> Inl TypeError)
      | _ \<Rightarrow> Inl TypeError)"

text \<open>\<^verbatim>\<open>it.get(k, default)\<close> on a manifest item, which has to be a dict.\<close>

definition get_or :: "json \<Rightarrow> string \<Rightarrow> json \<Rightarrow> py_error + json" where
  "get_or it k dflt =
     (case it of
        JObj d \<Rightarrow> Inr (case map_of d k of None \<Rightarrow> dflt | Some v \<Rightarrow> v)
      | _ \<Rightarrow> Inl AttributeError)"

text \<open>\<^verbatim>\<open>keyf(it) = (float(it.get("t0", 0.0)), float(it.get("t1", 0.0)))\<close>.\<close>

definition keyf :: "json \<Rightarrow> py_error + (rat \<times> rat)" where
  "keyf it =
     (case get_or it ''t0'' (JNum 0) of
        Inl e \<Rightarrow> Inl e
      | Inr a \<Rightarrow>
          (case float_of a of
             Inl e \<Rightarrow> Inl e
           | Inr x \<Rightarrow>
               (case get_or it ''t1'' (JNum 0) of
                  Inl e \<Rightarrow> Inl e
                | Inr b \<Rightarrow> (case float_of b of Inl e \<Rightarrow> Inl e | Inr y \<Rightarrow> Inr (x, y)))))"

text \<open>\<^verbatim>\<open>sorted\<close> computes the key of every item first; the first exception ends it.\<close>

fun keys_of :: "json list \<Rightarrow> py_error + (rat \<times> rat) list" where
  "keys_of [] = Inr []"
| "keys_of (it # rest) =
     (case keyf it of
        Inl e \<Rightarrow> Inl e
      | Inr k \<Rightarrow> (case keys_of rest of Inl e \<Rightarrow> Inl e | Inr ks \<Rightarrow> Inr (k # ks)))"

text \<open>
  \<^verbatim>\<open>str(p)\<close> of the value of a \<^verbatim>\<open>path\<close> field: the string itself; what \<^verbatim>\<open>str\<close>
  prints for any other value is the parameter \<open>str_other\<close>.
\<close>

definition path_text :: "(json \<Rightarrow> string) \<Rightarrow> json \<Rightarrow> string" where
  "path_text str_other p = (case p of JStr s \<Rightarrow> s | _ \<Rightarrow> str_other p)"

text \<open>
  The paths of the items whose \<^verbatim>\<open>path\<close> is true, in the order of the list given
  (\<^verbatim>\<open>if not p: continue\<close>).  The items were dicts when their keys were computed.
\<close>

definition listed_paths :: "(json \<Rightarrow> string) \<Rightarrow> json list \<Rightarrow> string list" where
  "listed_paths str_other items =
     map (path_text str_other)
       (filter truthy
          (map (\<lambda>it. case it of JObj d \<Rightarrow> (case map_of d ''path'' of None \<Rightarrow> JNull | Some v \<Rightarrow> v)
                              | _ \<Rightarrow> JNull) items))"

text \<open>
  \<^verbatim>\<open>main\<close> of \<^verbatim>\<open>stitch_from_manifest.py\<close> from the loaded manifest down to the list
  \<^verbatim>\<open>files\<close>, which is written to \<^verbatim>\<open>concat.txt\<close> line by line (and, with
  \<^verbatim>\<open>TRIM_MODE\<close> set, gives the \<^verbatim>\<open>-i\<close> inputs in the same order).  Every \<^verbatim>\<open>die\<close>
  is \<^verbatim>\<open>sys.exit(2)\<close>.
\<close>

definition stitch_files ::
  "(string \<Rightarrow> bool) \<Rightarrow> (json \<Rightarrow> string) \<Rightarrow> json \<Rightarrow> py_error + string list" where
  "stitch_files exists str_other loaded =
     (case loaded of
        JArr items \<Rightarrow>
          (if items = [] then Inl (SystemExit 2)
           else
             (case keys_of items of
                Inl e \<Rightarrow> Inl e
              | Inr ks \<Rightarrow>
                  (let sorted_items = map snd (sort_key fst (zip ks items));
                       ps = listed_paths str_other sorted_items;
                       missing = filter (\<lambda>p. \<not> exists p) ps;
                       files = filter exists ps
                   in if missing \<noteq> [] then Inl (SystemExit 2)
                      else if files = [] then Inl (SystemExit 2)
                      else Inr files)))
      | _ \<Rightarrow> Inl (SystemExit 2))"

text \<open>
  \<^verbatim>\<open>create_trimmed_video\<close> from the loaded manifest down to the \<^verbatim>\<open>-i\<close> inputs of the
  \<^verbatim>\<open>ffmpeg\<close> command, which \<^verbatim>\<open>concat\<close> joins as \<open>[v0][v1]...\<close> in that order.
  \<^verbatim>\<open>str(None)\<close> is \<^verbatim>\<open>'None'\<close>.  On an \<^verbatim>\<open>items\<close> value that is true and no list
  the model raises \<^verbatim>\<open>AttributeError\<close>.
\<close>

fun trimmed_inputs :: "(json \<Rightarrow> string) \<Rightarrow> json list \<Rightarrow> py_error + string list" where
  "trimmed_inputs str_other [] = Inr []"
| "trimmed_inputs str_other (item # rest) =
     (case item of
        JObj d \<Rightarrow>
          (case trimmed_inputs str_other rest of
             Inl e \<Rightarrow> Inl e
           | Inr ps \<Rightarrow>
               Inr ((case map_of d ''path'' of
                       None \<Rightarrow> ''None''
                     | Some v \<Rightarrow> path_text str_other v) # ps))
      | _ \<Rightarrow> Inl AttributeError)"

definition create_trimmed_video ::
  "(json \<Rightarrow> string) \<Rightarrow> (string \<times> json) list \<Rightarrow> py_error + string list" where
  "create_trimmed_video str_other manifest_data =
     (case (case map_of manifest_data ''items'' of None \<Rightarrow> JArr [] | Some v \<Rightarrow> v) of
        JArr items \<Rightarrow>
          (if items = [] then Inl (SystemExit 2) else trimmed_inputs str_other items)
      | v \<Rightarrow> (if truthy v then Inl AttributeError else Inl (SystemExit 2)))"

subsection \<open>\<^verbatim>\<open>sequence_and_assemble.py\<close>: \<^verbatim>\<open>load_meta_files\<close>\<close>













subsection \<open>Concrete inputs\<close>

text \<open>The three clips of the end-to-end scenario; each has the same analysis at both ends.\<close>

definition scenario_frame :: "string \<Rightarrow> string \<Rightarrow> string \<Rightarrow> frame" where
  "scenario_frame s sc l =
     \<lparr>subject = Some s, scene_type = Some sc, lighting = Some l, motion = None,
      dominant_colors = None\<rparr>"

definition clip_A :: clip where
  "clip_A = \<lparr>clip_file = ''a.mp4'',
             start_frame = scenario_frame ''person'' ''bedroom'' ''bright'',
             end_frame = scenario_frame ''person'' ''bedroom'' ''bright'', base = ''a''\<rparr>"

definition clip_B :: clip where
  "clip_B = \<lparr>clip_file = ''b.mp4'',
             start_frame = scenario_frame ''person'' ''bedroom'' ''dim'',
             end_frame = scenario_frame ''person'' ''bedroom'' ''dim'', base = ''b''\<rparr>"

definition clip_C :: clip where
  "clip_C = \<lparr>clip_file = ''c.mp4'',
             start_frame = scenario_frame ''object'' ''kitchen'' ''bright'',
             end_frame = scenario_frame ''object'' ''kitchen'' ''bright'', base = ''c''\<rparr>"

text \<open>A frame without any attribute, and fully described frames.\<close>

definition no_attrs :: frame where
  "no_attrs = \<lparr>subject = None, scene_type = None, lighting = None, motion = None,
               dominant_colors = None\<rparr>"

definition garden_frame :: "string \<Rightarrow> string list \<Rightarrow> frame" where
  "garden_frame s cols =
     \<lparr>subject = Some s, scene_type = Some ''garden'', lighting = Some ''bright'',
      motion = Some ''slow'', dominant_colors = Some cols\<rparr>"

text \<open>A clip whose colour list repeats a colour, and a clip whose subject changes.\<close>

definition clip_repeated_color :: clip where
  "clip_repeated_color =
     \<lparr>clip_file = ''d.mp4'',
      start_frame = garden_frame ''cat'' [''red'', ''red'', ''blue''],
      end_frame = garden_frame ''cat'' [''red'', ''red'', ''blue''], base = ''d''\<rparr>"

definition clip_subject_changes :: clip where
  "clip_subject_changes =
     \<lparr>clip_file = ''e.mp4'',
      start_frame = garden_frame ''cat'' [''red'', ''green'', ''blue''],
      end_frame = garden_frame ''dog'' [''red'', ''green'', ''blue''], base = ''e''\<rparr>"

definition clip_plain :: clip where
  "clip_plain =
     \<lparr>clip_file = ''f.mp4'',
      start_frame = garden_frame ''cat'' [''red'', ''green'', ''blue''],
      end_frame = garden_frame ''cat'' [''red'', ''green'', ''blue''], base = ''f''\<rparr>"

text \<open>Probes that always find the reference frame again, and a one-second clip.\<close>

definition still_probes :: probes where
  "still_probes = \<lparr>ref_ok = True, start_probe = (\<lambda>t. Some 1), end_probe = (\<lambda>t. Some 1),
                   cleanup_ok = True\<rparr>"

text \<open>Items of the verbose normalizer: with and without a path, with and without times.\<close>

definition item_timed :: item where
  "item_timed = \<lparr>meta = ''m1.json'', path = Some ''b.mp4'', t0 = Some 4, t1 = Some 6,
                 src0 = ''top:t0'', src1 = ''top:t1''\<rparr>"

definition item_untimed :: item where
  "item_untimed = \<lparr>meta = ''m2.json'', path = Some ''a.mp4'', t0 = None, t1 = None,
                   src0 = ''missing'', src1 = ''missing''\<rparr>"


text \<open>A manifest whose list order is not the order of its time bounds.\<close>

definition late_item :: json where
  "late_item = JObj [(''path'', JStr ''late.mp4''), (''t0'', JNum 5), (''t1'', JNum 10)]"

definition early_item :: json where
  "early_item = JObj [(''path'', JStr ''early.mp4''), (''t0'', JNum 0), (''t1'', JNum 5)]"

text \<open>A smart manifest whose only item names a file that is gone, on an empty disk.\<close>

definition gone_manifest :: "(string \<times> json) list" where
  "gone_manifest =
     [(''version'', JStr ''smart_v1''),
      (''items'', JArr [JObj [(''path'', JStr ''gone.mp4''), (''t0'', JNum 0), (''t1'', JNum 5)]]),
      (''transitions'', JArr [])]"

definition empty_disk :: media where
  "empty_disk = \<lparr>float_ops = double_arith, path_exists = (\<lambda>p. False),
                 video_duration = (\<lambda>p. 5),
                 video_probes = (\<lambda>p. still_probes)\<rparr>"

text \<open>The same manifest with a file that exists, on a disk where every file exists.\<close>

definition kept_item :: "(string \<times> json) list" where
  "kept_item = [(''path'', JStr ''clip.mp4''), (''t0'', JNum 0), (''t1'', JNum 5),
                (''base'', JStr ''clip'')]"

definition kept_manifest :: "(string \<times> json) list" where
  "kept_manifest =
     [(''version'', JStr ''smart_v1''),
      (''items'', JArr [JObj kept_item]),
      (''transitions'', JArr [])]"

definition full_disk :: media where
  "full_disk = \<lparr>float_ops = double_arith, path_exists = (\<lambda>p. True),
                video_duration = (\<lambda>p. 5),
                video_probes = (\<lambda>p. still_probes)\<rparr>"

text \<open>What the pass makes of that item and of that manifest.\<close>

definition refined_item :: "(string \<times> json) list" where
  "refined_item = [(''path'', JStr ''clip.mp4''), (''t0'', JNum 0), (''t1'', JNum 3),
      (''base'', JStr ''clip''), (''original_duration'', JNum 5), (''start_trim'', JNum (1 / 2)),
      (''clean_duration'', JNum 3), (''motion_strength'', JNum 0)]"

definition refined_manifest :: "(string \<times> json) list" where
  "refined_manifest =
     [(''version'', JStr ''smart_v1''),
      (''items'', JArr [JObj refined_item]),
      (''transitions'', JArr []),
      (''loop_detection'',
         JObj [(''total_clips'', JNum 1), (''total_time_saved'', JNum 2),
               (''trimming_method'', JStr ''start_and_end'')])]"

text \<open>
  A frame that is fully described: every attribute the score reads is present and not
  empty.
\<close>

definition described :: "frame \<Rightarrow> bool" where
  "described f =
     (get_str (subject f) \<noteq> [] \<and> get_str (scene_type f) \<noteq> []
      \<and> get_str (lighting f) \<noteq> [] \<and> get_str (motion f) \<noteq> []
      \<and> get_list (dominant_colors f) \<noteq> [])"

section \<open>Properties\<close>

lemmas str_defs = parse_time_str_def lower_def strip_def endswith_def drop_last_def pyfloat_def
  split_sign_def is_space_def is_digit_def TIME_RE_def re_field_def re_seconds_def
  lower_char_def parse_exponent_def digits_val_def digit_val_def pow10_def

subsection \<open>C1: one time value, many spellings\<close>

text \<open>
  C1.  Every accepted spelling of a time value should resolve to the same number of
  seconds, and \<^verbatim>\<open>"1:02.5"\<close> to 62.5.  In \<^verbatim>\<open>parse_time\<close> the number, the numeric
  string, the strings with the suffixes \<^verbatim>\<open>s\<close> and \<^verbatim>\<open>ms\<close>, the nested object and the
  one-element list all give 62.5, and so does the three-field clock string
  \<^verbatim>\<open>"0:1:02.5"\<close>.  The two-field clock string \<^verbatim>\<open>"1:02.5"\<close> gives 3602.5: the first
  optional group of \<^verbatim>\<open>TIME_RE\<close> takes the field before the only colon, so the minutes
  are read as hours.  \<^verbatim>\<open>coerce_float\<close> accepts neither a clock string nor a suffix.
\<close>

theorem parse_time_clock_string:
  "parse_time (JStr ''1:02.5'') = Some (7205 / 2)
   \<and> parse_time (JStr ''0:1:02.5'') = Some (125 / 2)
   \<and> parse_time (JNum (125 / 2)) = Some (125 / 2)
   \<and> parse_time (JStr ''62.5'') = Some (125 / 2)
   \<and> parse_time (JStr ''62.5s'') = Some (125 / 2)
   \<and> parse_time (JStr ''62500ms'') = Some (125 / 2)
   \<and> parse_time (JObj [(''seconds'', JNum (125 / 2))]) = Some (125 / 2)
   \<and> parse_time (JArr [JNum (125 / 2)]) = Some (125 / 2)
   \<and> coerce_float (JStr ''1:02.5'') None = None
   \<and> coerce_float (JStr ''62.5s'') None = None"
  by (simp add: str_defs time_keys_def)

subsection \<open>C3: the greedy sequence is a permutation, with one transition per joint\<close>

lemma scan_best_bound:
  "snd (scan_best cur bs bi i cs) = Some j \<Longrightarrow> bi = Some j \<or> j < i + length cs"
  by (induction cs arbitrary: bs bi i) (fastforce simp: Let_def split: if_splits)+

lemma scan_best_in_range:
  "snd (scan_best cur bs None 0 cs) = Some j \<Longrightarrow> j < length cs"
  using scan_best_bound [of cur bs None 0 cs j] by simp

lemma mset_pop: "i < length xs \<Longrightarrow> add_mset (xs ! i) (mset (pop i xs)) = mset xs"
proof -
  assume "i < length xs"
  then have "xs = take i xs @ xs ! i # drop (Suc i) xs"
    by (rule id_take_nth_drop)
  then have "mset xs = mset (take i xs @ xs ! i # drop (Suc i) xs)"
    by simp
  then show ?thesis
    by (simp add: pop_def)
qed

declare sequence_loop.simps [simp del]

lemma sequence_loop_empty: "sequence_loop s [] = s"
  by (simp add: sequence_loop.simps [of s "[]"])

lemma sequence_loop_none:
  "r \<noteq> [] \<Longrightarrow> snd (scan_best (last s) (- 1) None 0 r) = None \<Longrightarrow>
     sequence_loop s r = sequence_loop (s @ [hd r]) (pop 0 r)"
  by (subst sequence_loop.simps) simp

lemma sequence_loop_some:
  "r \<noteq> [] \<Longrightarrow> snd (scan_best (last s) (- 1) None 0 r) = Some j \<Longrightarrow>
     sequence_loop s r = sequence_loop (s @ [r ! j]) (pop j r)"
  by (subst sequence_loop.simps) simp

lemma mset_sequence_loop: "mset (sequence_loop s r) = mset s + mset r"
proof (induction s r rule: sequence_loop.induct)
  case (1 s r)
  show ?case
  proof (cases "r = []")
    case True
    then show ?thesis by (simp add: sequence_loop_empty)
  next
    case ne: False
    show ?thesis
    proof (cases "snd (scan_best (last s) (- 1) None 0 r)")
      case None
      from ne have "add_mset (hd r) (mset (pop 0 r)) = mset r"
        using mset_pop [of 0 r] by (simp add: hd_conv_nth)
      with "1.IH"(1) [OF ne None] sequence_loop_none [OF ne None] show ?thesis
        by simp
    next
      case (Some j)
      then have "j < length r" by (rule scan_best_in_range)
      then have "add_mset (r ! j) (mset (pop j r)) = mset r"
        by (rule mset_pop)
      with "1.IH"(2) [OF ne Some] sequence_loop_some [OF ne Some] show ?thesis
        by simp
    qed
  qed
qed

lemma hd_sequence_loop: "s \<noteq> [] \<Longrightarrow> hd (sequence_loop s r) = hd s"
proof (induction s r rule: sequence_loop.induct)
  case (1 s r)
  show ?case
  proof (cases "r = []")
    case True
    then show ?thesis by (simp add: sequence_loop_empty)
  next
    case ne: False
    show ?thesis
    proof (cases "snd (scan_best (last s) (- 1) None 0 r)")
      case None
      with "1.IH"(1) [OF ne None] sequence_loop_none [OF ne None] "1.prems" show ?thesis
        by simp
    next
      case (Some j)
      with "1.IH"(2) [OF ne Some] sequence_loop_some [OF ne Some] "1.prems" show ?thesis
        by simp
    qed
  qed
qed

lemma length_generate_transitions: "length (generate_transitions xs) = length xs - 1"
  by (induction xs rule: generate_transitions.induct) simp_all

lemma length_find_optimal_sequence: "length (find_optimal_sequence clips) = length clips"
proof -
  have "mset (find_optimal_sequence clips) = mset clips"
    by (cases clips) (simp_all add: find_optimal_sequence_def mset_sequence_loop)
  then show ?thesis by (rule mset_eq_length)
qed

text \<open>
  C3.  For every list of clips, \<^verbatim>\<open>find_optimal_sequence\<close> returns a permutation of
  the list (the same clips with the same multiplicities) that starts with the first clip
  of the input, and \<^verbatim>\<open>generate_transitions\<close> on it returns one transition less than
  there are clips, none for at most one clip.
\<close>

theorem find_optimal_sequence_permutation:
  "mset (find_optimal_sequence clips) = mset clips
   \<and> (clips \<noteq> [] \<longrightarrow> hd (find_optimal_sequence clips) = hd clips)
   \<and> length (generate_transitions (find_optimal_sequence clips)) = length clips - 1
   \<and> (length clips \<le> 1 \<longrightarrow> generate_transitions (find_optimal_sequence clips) = [])"
proof (intro conjI impI)
  show m: "mset (find_optimal_sequence clips) = mset clips"
    by (cases clips) (simp_all add: find_optimal_sequence_def mset_sequence_loop)
  show "hd (find_optimal_sequence clips) = hd clips" if "clips \<noteq> []"
    using that by (simp add: find_optimal_sequence_def hd_sequence_loop)
  show l: "length (generate_transitions (find_optimal_sequence clips)) = length clips - 1"
    by (simp add: length_generate_transitions length_find_optimal_sequence)
  show "generate_transitions (find_optimal_sequence clips) = []" if "length clips \<le> 1"
    using that l by simp
qed

theorem find_optimal_sequence_permutation_witness:
  "[clip_A, clip_C, clip_B] \<noteq> []
   \<and> mset (find_optimal_sequence [clip_A, clip_C, clip_B]) = mset [clip_A, clip_C, clip_B]
   \<and> hd (find_optimal_sequence [clip_A, clip_C, clip_B]) = clip_A
   \<and> length (generate_transitions (find_optimal_sequence [clip_A, clip_C, clip_B])) = 2"
  using find_optimal_sequence_permutation [of "[clip_A, clip_C, clip_B]"] by simp

subsection \<open>C7: the end-to-end scenario\<close>

lemma score_A_B: "calculate_transition_score clip_A clip_B = 27 / 40"
  by code_simp

lemma score_A_C: "calculate_transition_score clip_A clip_C = 13 / 40"
  by code_simp

lemma score_B_C: "calculate_transition_score clip_B clip_C = 1 / 8"
  by code_simp

lemma sequence_A_B_C: "find_optimal_sequence [clip_A, clip_B, clip_C] = [clip_A, clip_B, clip_C]"
proof -
  have "sequence_loop [clip_A] [clip_B, clip_C] = sequence_loop [clip_A, clip_B] [clip_C]"
    using sequence_loop_some [of "[clip_B, clip_C]" "[clip_A]" 0]
    by (simp add: score_A_B score_A_C pop_def)
  also have "\<dots> = sequence_loop [clip_A, clip_B, clip_C] []"
    using sequence_loop_some [of "[clip_C]" "[clip_A, clip_B]" 0]
    by (simp add: score_B_C pop_def)
  finally show ?thesis
    by (simp add: find_optimal_sequence_def sequence_loop_empty)
qed

lemma sequence_A_C_B: "find_optimal_sequence [clip_A, clip_C, clip_B] = [clip_A, clip_B, clip_C]"
proof -
  have "sequence_loop [clip_A] [clip_C, clip_B] = sequence_loop [clip_A, clip_B] [clip_C]"
    using sequence_loop_some [of "[clip_C, clip_B]" "[clip_A]" 1]
    by (simp add: score_A_B score_A_C pop_def)
  also have "\<dots> = sequence_loop [clip_A, clip_B, clip_C] []"
    using sequence_loop_some [of "[clip_C]" "[clip_A, clip_B]" 0]
    by (simp add: score_B_C pop_def)
  finally show ?thesis
    by (simp add: find_optimal_sequence_def sequence_loop_empty)
qed

lemma bases: "base clip_A = ''a''" "base clip_B = ''b''" "base clip_C = ''c''"
  by (simp_all add: clip_A_def clip_B_def clip_C_def)

text \<open>
  C7.  For the clips A (person, bedroom, bright), B (person, bedroom, dim) and
  C (object, kitchen, bright), with no other attribute, the optimizer seeded at A returns
  the order A, B, C, whichever of B and C comes first in the input, with two transitions:
  A to B is a crossfade (score 0.675, above 0.5), B to C a fade to black (score 0.125,
  at most 0.5).
\<close>

theorem scenario_order_and_transitions:
  "find_optimal_sequence [clip_A, clip_B, clip_C] = [clip_A, clip_B, clip_C]
   \<and> find_optimal_sequence [clip_A, clip_C, clip_B] = [clip_A, clip_B, clip_C]
   \<and> map (\<lambda>t. (from_clip t, to_clip t, type t, duration t, score t))
        (generate_transitions (find_optimal_sequence [clip_A, clip_B, clip_C]))
      = [(''a'', ''b'', crossfade, 1 / 2, 27 / 40), (''b'', ''c'', fade_black, 3 / 10, 1 / 8)]
   \<and> calculate_transition_score clip_A clip_B > 1 / 2
   \<and> calculate_transition_score clip_B clip_C \<le> 1 / 2"
  by (simp add: sequence_A_B_C sequence_A_C_B make_transition_def score_A_B score_B_C bases)

subsection \<open>C5: what a missing attribute contributes\<close>

lemma empty_not_lit: "[] \<notin> bright" "[] \<notin> dim"
  by (simp_all add: bright_def dim_def)

lemma no_attrs_get:
  "get_str (subject no_attrs) = []" "get_str (scene_type no_attrs) = []"
  "get_str (lighting no_attrs) = []" "get_str (motion no_attrs) = []"
  "get_list (dominant_colors no_attrs) = []"
  by (simp_all add: no_attrs_def get_str_def get_list_def)

lemma scenario_frame_get:
  "get_str (subject (scenario_frame s sc l)) = s"
  "get_str (scene_type (scenario_frame s sc l)) = sc"
  "get_str (lighting (scenario_frame s sc l)) = l"
  "get_str (motion (scenario_frame s sc l)) = []"
  "get_list (dominant_colors (scenario_frame s sc l)) = []"
  by (simp_all add: scenario_frame_def get_str_def get_list_def)

text \<open>
  C5.  The score is a total function: a missing or empty attribute raises nothing.  When
  a motion value or a colour list is missing or empty, the motion and colour factors
  contribute half their weight (0.075 and 0.05).  The subject, scene-type and lighting
  factors have no midpoint: two missing or empty values compare equal and contribute the
  full weight (0.30, 0.25, 0.20), and a missing or empty value against a present one
  contributes 0.
\<close>

theorem missing_attribute_contributions:
  "(get_str (motion a) = [] \<or> get_str (motion b) = [] \<longrightarrow> motion_part a b = 3 / 40)
   \<and> (get_list (dominant_colors a) = [] \<or> get_list (dominant_colors b) = []
        \<longrightarrow> color_part a b = 1 / 20)
   \<and> (get_str (subject a) = [] \<and> get_str (subject b) = [] \<longrightarrow> subject_part a b = 3 / 10)
   \<and> (get_str (scene_type a) = [] \<and> get_str (scene_type b) = [] \<longrightarrow> scene_part a b = 1 / 4)
   \<and> (get_str (lighting a) = [] \<and> get_str (lighting b) = [] \<longrightarrow> lighting_part a b = 1 / 5)
   \<and> ((get_str (subject a) = []) \<noteq> (get_str (subject b) = []) \<longrightarrow> subject_part a b = 0)
   \<and> ((get_str (scene_type a) = []) \<noteq> (get_str (scene_type b) = []) \<longrightarrow> scene_part a b = 0)
   \<and> ((get_str (lighting a) = []) \<noteq> (get_str (lighting b) = []) \<longrightarrow> lighting_part a b = 0)"
proof (intro conjI impI)
  show "motion_part a b = 3 / 40" if "get_str (motion a) = [] \<or> get_str (motion b) = []"
    using that by (auto simp: motion_part_def motion_compatibility_def)
  show "color_part a b = 1 / 20"
    if "get_list (dominant_colors a) = [] \<or> get_list (dominant_colors b) = []"
    using that by (auto simp: color_part_def color_harmony_def)
  show "subject_part a b = 3 / 10" if "get_str (subject a) = [] \<and> get_str (subject b) = []"
    using that by (simp add: subject_part_def)
  show "scene_part a b = 1 / 4" if "get_str (scene_type a) = [] \<and> get_str (scene_type b) = []"
    using that by (simp add: scene_part_def)
  show "lighting_part a b = 1 / 5" if "get_str (lighting a) = [] \<and> get_str (lighting b) = []"
    using that by (simp add: lighting_part_def)
  show "subject_part a b = 0" if "(get_str (subject a) = []) \<noteq> (get_str (subject b) = [])"
    using that by (auto simp: subject_part_def similar_subjects_def)
  show "scene_part a b = 0" if "(get_str (scene_type a) = []) \<noteq> (get_str (scene_type b) = [])"
    using that by (auto simp: scene_part_def)
  show "lighting_part a b = 0" if "(get_str (lighting a) = []) \<noteq> (get_str (lighting b) = [])"
    using that by (auto simp: lighting_part_def compatible_lighting_def empty_not_lit)
qed

theorem missing_attribute_contributions_witness:
  "motion_part no_attrs (scenario_frame ''person'' ''bedroom'' ''bright'') = 3 / 40
   \<and> color_part no_attrs (scenario_frame ''person'' ''bedroom'' ''bright'') = 1 / 20
   \<and> subject_part no_attrs no_attrs = 3 / 10
   \<and> scene_part no_attrs no_attrs = 1 / 4
   \<and> lighting_part no_attrs no_attrs = 1 / 5
   \<and> subject_part no_attrs (scenario_frame ''person'' ''bedroom'' ''bright'') = 0
   \<and> scene_part no_attrs (scenario_frame ''person'' ''bedroom'' ''bright'') = 0
   \<and> lighting_part no_attrs (scenario_frame ''person'' ''bedroom'' ''bright'') = 0"
  using missing_attribute_contributions [of no_attrs no_attrs]
    missing_attribute_contributions [of no_attrs "scenario_frame ''person'' ''bedroom'' ''bright''"]
  by (simp add: no_attrs_get scenario_frame_get)

theorem missing_attribute_midpoint_counterexample:
  "\<not> (subject_part no_attrs no_attrs = 3 / 20)
   \<and> \<not> (scene_part no_attrs no_attrs = 1 / 8)
   \<and> \<not> (lighting_part no_attrs no_attrs = 1 / 10)
   \<and> \<not> (subject_part no_attrs (scenario_frame ''person'' ''bedroom'' ''bright'') = 3 / 20)
   \<and> \<not> (scene_part no_attrs (scenario_frame ''person'' ''bedroom'' ''bright'') = 1 / 8)
   \<and> \<not> (lighting_part no_attrs (scenario_frame ''person'' ''bedroom'' ''bright'') = 1 / 10)"
  by (simp add: subject_part_def scene_part_def lighting_part_def no_attrs_get
        scenario_frame_get similar_subjects_def compatible_lighting_def empty_not_lit)

subsection \<open>C8: the range of the score, and the score of a clip against itself\<close>

lemma motion_compatibility_range:
  "0 \<le> motion_compatibility x y \<and> motion_compatibility x y \<le> 1"
  by (simp add: motion_compatibility_def)

lemma color_harmony_range: "0 \<le> color_harmony xs ys \<and> color_harmony xs ys \<le> 1"
proof -
  have "card (set xs \<inter> set ys) \<le> card (set xs)" "card (set xs \<inter> set ys) \<le> card (set ys)"
    by (simp_all add: card_mono)
  moreover have "card (set xs) \<le> length xs" "card (set ys) \<le> length ys"
    by (rule card_length)+
  ultimately have "card (set xs \<inter> set ys) \<le> min (length xs) (length ys)"
    by simp
  then show ?thesis
    by (simp add: color_harmony_def Let_def)
qed

lemma parts_nonneg:
  "0 \<le> subject_part a b" "0 \<le> scene_part a b" "0 \<le> lighting_part a b"
  "0 \<le> motion_part a b" "0 \<le> color_part a b"
  using motion_compatibility_range color_harmony_range
  by (simp_all add: subject_part_def scene_part_def lighting_part_def motion_part_def
        color_part_def)

lemma score_range:
  "0 \<le> calculate_transition_score a b \<and> calculate_transition_score a b \<le> 1"
proof -
  have "0 \<le> 0 + subject_part (end_frame a) (start_frame b)
          + scene_part (end_frame a) (start_frame b)
          + lighting_part (end_frame a) (start_frame b)
          + motion_part (end_frame a) (start_frame b)
          + color_part (end_frame a) (start_frame b)"
    by (intro add_nonneg_nonneg parts_nonneg) simp
  then show ?thesis
    by (simp add: calculate_transition_score_def Let_def)
qed

lemma color_harmony_self:
  "xs \<noteq> [] \<Longrightarrow> distinct xs \<Longrightarrow> color_harmony xs xs = 1"
  by (simp add: color_harmony_def distinct_card)

lemma motion_compatibility_self: "x \<noteq> [] \<Longrightarrow> motion_compatibility x x = 1"
  by (simp add: motion_compatibility_def)

text \<open>
  C8.  The transition score of every ordered pair of clips lies between 0 and 1.  A clip
  scores 1 against a copy of itself when the analysis of its last frame equals that of
  its first frame, the motion value is not empty and the colour list is not empty and
  repeats no colour.  (The score compares the end frame of the first clip with the start
  frame of the second, and counts matching colours as a set but divides by the length of
  the list; so a fully described clip whose subject changes between its two frames, or
  whose colour list repeats a colour, scores less than 1 against itself.)
\<close>

theorem score_range_and_self_score:
  "0 \<le> calculate_transition_score a b \<and> calculate_transition_score a b \<le> 1
   \<and> (end_frame c = start_frame c
        \<and> get_str (motion (end_frame c)) \<noteq> []
        \<and> get_list (dominant_colors (end_frame c)) \<noteq> []
        \<and> distinct (get_list (dominant_colors (end_frame c)))
      \<longrightarrow> calculate_transition_score c c = 1)"
proof (intro conjI impI)
  show "0 \<le> calculate_transition_score a b" "calculate_transition_score a b \<le> 1"
    using score_range by simp_all
  assume h: "end_frame c = start_frame c
        \<and> get_str (motion (end_frame c)) \<noteq> []
        \<and> get_list (dominant_colors (end_frame c)) \<noteq> []
        \<and> distinct (get_list (dominant_colors (end_frame c)))"
  then have e: "end_frame c = start_frame c"
    by blast
  from h have m: "get_str (motion (start_frame c)) \<noteq> []"
    by metis
  from h have n: "get_list (dominant_colors (start_frame c)) \<noteq> []"
    by metis
  from h have d: "distinct (get_list (dominant_colors (start_frame c)))"
    by metis
  have "motion_part (end_frame c) (start_frame c) = 3 / 20"
    "color_part (end_frame c) (start_frame c) = 1 / 10"
    "subject_part (end_frame c) (start_frame c) = 3 / 10"
    "scene_part (end_frame c) (start_frame c) = 1 / 4"
    "lighting_part (end_frame c) (start_frame c) = 1 / 5"
    by (simp_all add: motion_part_def color_part_def subject_part_def scene_part_def
          lighting_part_def motion_compatibility_self [OF m] color_harmony_self [OF n d] e)
  then show "calculate_transition_score c c = 1"
    by (simp add: calculate_transition_score_def Let_def)
qed

lemma score_rep: "calculate_transition_score clip_repeated_color clip_repeated_color = 29 / 30"
  by code_simp
lemma score_chg: "calculate_transition_score clip_subject_changes clip_subject_changes = 7 / 10"
  by code_simp

lemma garden_frame_get:
  "get_str (subject (garden_frame s cols)) = s"
  "get_str (scene_type (garden_frame s cols)) = ''garden''"
  "get_str (lighting (garden_frame s cols)) = ''bright''"
  "get_str (motion (garden_frame s cols)) = ''slow''"
  "get_list (dominant_colors (garden_frame s cols)) = cols"
  by (simp_all add: garden_frame_def get_str_def get_list_def)

lemma fixture_frames:
  "start_frame clip_plain = garden_frame ''cat'' [''red'', ''green'', ''blue'']"
  "end_frame clip_plain = garden_frame ''cat'' [''red'', ''green'', ''blue'']"
  "start_frame clip_repeated_color = garden_frame ''cat'' [''red'', ''red'', ''blue'']"
  "end_frame clip_repeated_color = garden_frame ''cat'' [''red'', ''red'', ''blue'']"
  "start_frame clip_subject_changes = garden_frame ''cat'' [''red'', ''green'', ''blue'']"
  "end_frame clip_subject_changes = garden_frame ''dog'' [''red'', ''green'', ''blue'']"
  by (simp_all add: clip_plain_def clip_repeated_color_def clip_subject_changes_def)

theorem score_range_and_self_score_witness:
  "end_frame clip_plain = start_frame clip_plain
   \<and> described (end_frame clip_plain)
   \<and> distinct (get_list (dominant_colors (end_frame clip_plain)))
   \<and> calculate_transition_score clip_plain clip_plain = 1
   \<and> 0 \<le> calculate_transition_score clip_A clip_B
   \<and> calculate_transition_score clip_A clip_B \<le> 1"
  using score_range_and_self_score [of clip_A clip_B clip_plain]
  by (simp add: fixture_frames described_def garden_frame_get)

theorem self_score_counterexample:
  "described (start_frame clip_repeated_color) \<and> described (end_frame clip_repeated_color)
   \<and> calculate_transition_score clip_repeated_color clip_repeated_color = 29 / 30
   \<and> calculate_transition_score clip_repeated_color clip_repeated_color \<noteq> 1
   \<and> described (start_frame clip_subject_changes) \<and> described (end_frame clip_subject_changes)
   \<and> calculate_transition_score clip_subject_changes clip_subject_changes = 7 / 10
   \<and> calculate_transition_score clip_subject_changes clip_subject_changes \<noteq> 1"
  by (simp add: score_rep score_chg fixture_frames described_def garden_frame_get)

subsection \<open>C2: the sequential fallback is decided for the whole batch\<close>

lemma length_assign_slots: "length (assign_slots fl D t xs) = length xs"
  by (induction xs arbitrary: t) simp_all

lemma untimed_assign_slots:
  "map (\<lambda>i. (meta i, path i, src0 i, src1 i)) (assign_slots fl D t xs)
     = map (\<lambda>i. (meta i, path i, src0 i, src1 i)) xs"
  by (induction xs arbitrary: t) simp_all

lemma t0_assign_slots:
  "k < length xs \<Longrightarrow> t0 (assign_slots fl D t xs ! k) = Some (((\<lambda>t. fadd fl t D) ^^ k) t)"
proof (induction xs arbitrary: t k)
  case Nil
  then show ?case by simp
next
  case (Cons x xs)
  show ?case
  proof (cases k)
    case 0
    then show ?thesis by simp
  next
    case (Suc j)
    with Cons.prems have "j < length xs" by simp
    from Cons.IH [OF this, of "fadd fl t D"] Suc
      funpow_swap1 [of "\<lambda>t. fadd fl t D" j t]
    show ?thesis
      by simp
  qed
qed

lemma t1_assign_slots:
  "k < length xs \<Longrightarrow> t1 (assign_slots fl D t xs ! k) = Some (fadd fl (((\<lambda>t. fadd fl t D) ^^ k) t) D)"
proof (induction xs arbitrary: t k)
  case Nil
  then show ?case by simp
next
  case (Cons x xs)
  show ?case
  proof (cases k)
    case 0
    then show ?thesis by simp
  next
    case (Suc j)
    with Cons.prems have "j < length xs" by simp
    from Cons.IH [OF this, of "fadd fl t D"] Suc
      funpow_swap1 [of "\<lambda>t. fadd fl t D" j t]
    show ?thesis
      by simp
  qed
qed

lemma exact_running_time:
  "(\<forall>j < n. fadd fl (of_nat j * D) D = of_nat j * D + D) \<Longrightarrow> k \<le> n \<Longrightarrow>
     ((\<lambda>t. fadd fl t D) ^^ k) 0 = of_nat k * D"
  by (induction k) (simp_all add: algebra_simps)

lemma two_items_need_fallback: "need_fallback [item_timed, item_untimed]"
  by (simp add: need_fallback_def item_untimed_def)

lemma two_items_sorted:
  "sort_key (fallback_key (\<lambda>p. p)) [item_timed, item_untimed] = [item_untimed, item_timed]"
  by (simp add: fallback_key_def item_timed_def item_untimed_def less_eq_char_def)

text \<open>
  C2.  If one record of a batch lacks a start or an end time, every record of the output
  is timed by the fallback: the output is the input stably sorted by the file name of the
  path (by the \<^verbatim>\<open>meta\<close> name for a record without a path), all other fields kept;
  record 0 has \<open>t0 = 0\<close>, every record has \<open>t1 = t0 + D\<close> in float arithmetic, and the
  \<open>t0\<close> of each next record is the \<open>t1\<close> of the record before it, for the one default
  duration \<open>D\<close>.  Record \<open>k\<close> has \<open>t0 = k * D\<close> and \<open>t1 = (k + 1) * D\<close> when the
  additions of the running time are exact.  If every record has both times, the batch is
  returned as it is.
\<close>

theorem sequential_fallback_all_or_nothing:
  "(need_fallback items \<longrightarrow>
      snd (apply_sequential_fallback fl D name items) = True
      \<and> map (\<lambda>i. (meta i, path i, src0 i, src1 i)) (fst (apply_sequential_fallback fl D name items))
          = map (\<lambda>i. (meta i, path i, src0 i, src1 i)) (sort_key (fallback_key name) items)
      \<and> length (fst (apply_sequential_fallback fl D name items)) = length items
      \<and> t0 (fst (apply_sequential_fallback fl D name items) ! 0) = Some 0
      \<and> (\<forall>k < length items.
            \<exists>t. t0 (fst (apply_sequential_fallback fl D name items) ! k) = Some t
              \<and> t1 (fst (apply_sequential_fallback fl D name items) ! k) = Some (fadd fl t D))
      \<and> (\<forall>k. Suc k < length items \<longrightarrow>
            t0 (fst (apply_sequential_fallback fl D name items) ! Suc k)
              = t1 (fst (apply_sequential_fallback fl D name items) ! k))
      \<and> ((\<forall>j < length items. fadd fl (of_nat j * D) D = of_nat j * D + D) \<longrightarrow>
           (\<forall>k < length items.
              t0 (fst (apply_sequential_fallback fl D name items) ! k) = Some (of_nat k * D)
              \<and> t1 (fst (apply_sequential_fallback fl D name items) ! k)
                  = Some (of_nat (k + 1) * D))))
   \<and> (\<not> need_fallback items \<longrightarrow> apply_sequential_fallback fl D name items = (items, False))"
proof (rule conjI; rule impI)
  assume nf: "need_fallback items"
  define out where "out = fst (apply_sequential_fallback fl D name items)"
  define step where "step = (\<lambda>t. fadd fl t D)"
  from nf have res: "apply_sequential_fallback fl D name items
      = (assign_slots fl D 0 (sort_key (fallback_key name) items), True)"
    by (simp add: apply_sequential_fallback_def)
  then have out: "out = assign_slots fl D 0 (sort_key (fallback_key name) items)"
    by (simp add: out_def)
  from nf have ne: "0 < length items"
    by (cases items) (simp_all add: need_fallback_def)
  have a0: "\<And>k. k < length items \<Longrightarrow> t0 (out ! k) = Some ((step ^^ k) 0)"
    unfolding out step_def by (rule t0_assign_slots) simp
  have a1: "\<And>k. k < length items \<Longrightarrow> t1 (out ! k) = Some (fadd fl ((step ^^ k) 0) D)"
    unfolding out step_def by (rule t1_assign_slots) simp
  have c1: "snd (apply_sequential_fallback fl D name items) = True"
    by (simp add: res)
  have c2: "map (\<lambda>i. (meta i, path i, src0 i, src1 i)) out
          = map (\<lambda>i. (meta i, path i, src0 i, src1 i)) (sort_key (fallback_key name) items)"
    by (simp add: out untimed_assign_slots)
  have c3: "length out = length items"
    by (simp add: out length_assign_slots)
  have c4: "t0 (out ! 0) = Some 0"
    using a0 [OF ne] by simp
  have c5: "\<forall>k < length items. \<exists>t. t0 (out ! k) = Some t \<and> t1 (out ! k) = Some (fadd fl t D)"
    using a0 a1 by simp
  have c6: "\<forall>k. Suc k < length items \<longrightarrow> t0 (out ! Suc k) = t1 (out ! k)"
  proof (intro allI impI)
    fix k
    assume k: "Suc k < length items"
    then have "k < length items" by simp
    from a0 [OF k] a1 [OF this] show "t0 (out ! Suc k) = t1 (out ! k)"
      by (simp add: step_def)
  qed
  have c7: "(\<forall>j < length items. fadd fl (of_nat j * D) D = of_nat j * D + D) \<longrightarrow>
           (\<forall>k < length items.
              t0 (out ! k) = Some (of_nat k * D) \<and> t1 (out ! k) = Some (of_nat (k + 1) * D))"
  proof (intro allI impI)
    fix k
    assume ex: "\<forall>j < length items. fadd fl (of_nat j * D) D = of_nat j * D + D"
      and k: "k < length items"
    from k have "k \<le> length items" by simp
    from exact_running_time [OF ex this] have s: "(step ^^ k) 0 = of_nat k * D"
      by (simp add: step_def)
    from ex k have "fadd fl (of_nat k * D) D = of_nat k * D + D"
      by simp
    with s a0 [OF k] a1 [OF k]
    show "t0 (out ! k) = Some (of_nat k * D) \<and> t1 (out ! k) = Some (of_nat (k + 1) * D)"
      by (simp add: algebra_simps)
  qed
  from c1 c2 c3 c4 c5 c6 c7
  show "snd (apply_sequential_fallback fl D name items) = True
      \<and> map (\<lambda>i. (meta i, path i, src0 i, src1 i)) (fst (apply_sequential_fallback fl D name items))
          = map (\<lambda>i. (meta i, path i, src0 i, src1 i)) (sort_key (fallback_key name) items)
      \<and> length (fst (apply_sequential_fallback fl D name items)) = length items
      \<and> t0 (fst (apply_sequential_fallback fl D name items) ! 0) = Some 0
      \<and> (\<forall>k < length items.
            \<exists>t. t0 (fst (apply_sequential_fallback fl D name items) ! k) = Some t
              \<and> t1 (fst (apply_sequential_fallback fl D name items) ! k) = Some (fadd fl t D))
      \<and> (\<forall>k. Suc k < length items \<longrightarrow>
            t0 (fst (apply_sequential_fallback fl D name items) ! Suc k)
              = t1 (fst (apply_sequential_fallback fl D name items) ! k))
      \<and> ((\<forall>j < length items. fadd fl (of_nat j * D) D = of_nat j * D + D) \<longrightarrow>
           (\<forall>k < length items.
              t0 (fst (apply_sequential_fallback fl D name items) ! k) = Some (of_nat k * D)
              \<and> t1 (fst (apply_sequential_fallback fl D name items) ! k)
                  = Some (of_nat (k + 1) * D)))"
    unfolding out_def by blast
next
  assume "\<not> need_fallback items"
  then show "apply_sequential_fallback fl D name items = (items, False)"
    by (simp add: apply_sequential_fallback_def)
qed

lemma double_two: "fadd double_arith 0 2 = 2" "fadd double_arith 2 2 = 4"
  by code_simp+

text \<open>
  The default duration 2.0 on doubles, on a batch of one timed and one untimed record:
  the additions are exact and the timed record, second by file name, gets \<open>[2, 4]\<close>.
\<close>

theorem sequential_fallback_all_or_nothing_witness:
  "need_fallback [item_timed, item_untimed]
   \<and> t0 item_timed = Some 4 \<and> t1 item_timed = Some 6
   \<and> fadd double_arith 0 2 = 2 \<and> fadd double_arith 2 2 = 4
   \<and> map meta (fst (apply_sequential_fallback double_arith 2 (\<lambda>p. p) [item_timed, item_untimed]))
       = [''m2.json'', ''m1.json'']
   \<and> t0 (fst (apply_sequential_fallback double_arith 2 (\<lambda>p. p) [item_timed, item_untimed]) ! 0)
       = Some 0
   \<and> t0 (fst (apply_sequential_fallback double_arith 2 (\<lambda>p. p) [item_timed, item_untimed]) ! 1)
       = Some 2
   \<and> t1 (fst (apply_sequential_fallback double_arith 2 (\<lambda>p. p) [item_timed, item_untimed]) ! 1)
       = Some 4"
proof -
  note h = two_items_need_fallback
  note t = sequential_fallback_all_or_nothing
    [of "[item_timed, item_untimed]" double_arith 2 "\<lambda>p. p"]
  have ex: "\<forall>j < length [item_timed, item_untimed].
      fadd double_arith (of_nat j * 2) 2 = of_nat j * 2 + 2"
    by (simp add: less_Suc_eq double_two)
  from t h have
    m: "map (\<lambda>i. (meta i, path i, src0 i, src1 i))
          (fst (apply_sequential_fallback double_arith 2 (\<lambda>p. p) [item_timed, item_untimed]))
        = map (\<lambda>i. (meta i, path i, src0 i, src1 i))
            (sort_key (fallback_key (\<lambda>p. p)) [item_timed, item_untimed])"
    and z: "t0 (fst (apply_sequential_fallback double_arith 2 (\<lambda>p. p)
                      [item_timed, item_untimed]) ! 0) = Some 0"
    and c: "(\<forall>j < length [item_timed, item_untimed].
              fadd double_arith (of_nat j * 2) 2 = of_nat j * 2 + 2) \<longrightarrow>
          (\<forall>k < length [item_timed, item_untimed].
            t0 (fst (apply_sequential_fallback double_arith 2 (\<lambda>p. p) [item_timed, item_untimed]) ! k)
              = Some (of_nat k * 2)
            \<and> t1 (fst (apply_sequential_fallback double_arith 2 (\<lambda>p. p) [item_timed, item_untimed]) ! k)
              = Some (of_nat (k + 1) * 2))"
    by blast+
  from c ex have k: "\<forall>k < length [item_timed, item_untimed].
            t0 (fst (apply_sequential_fallback double_arith 2 (\<lambda>p. p) [item_timed, item_untimed]) ! k)
              = Some (of_nat k * 2)
            \<and> t1 (fst (apply_sequential_fallback double_arith 2 (\<lambda>p. p) [item_timed, item_untimed]) ! k)
              = Some (of_nat (k + 1) * 2)"
    by (rule mp)
  from m have "map (fst \<circ> (\<lambda>i. (meta i, path i, src0 i, src1 i)))
          (fst (apply_sequential_fallback double_arith 2 (\<lambda>p. p) [item_timed, item_untimed]))
        = map (fst \<circ> (\<lambda>i. (meta i, path i, src0 i, src1 i))) [item_untimed, item_timed]"
    by (simp only: map_map [symmetric] two_items_sorted)
  then have m': "map meta (fst (apply_sequential_fallback double_arith 2 (\<lambda>p. p)
                                 [item_timed, item_untimed]))
       = [''m2.json'', ''m1.json'']"
    by (simp add: comp_def item_timed_def item_untimed_def)
  from k have "t0 (fst (apply_sequential_fallback double_arith 2 (\<lambda>p. p)
                         [item_timed, item_untimed]) ! 1) = Some 2"
    and "t1 (fst (apply_sequential_fallback double_arith 2 (\<lambda>p. p)
                   [item_timed, item_untimed]) ! 1) = Some 4"
    by simp_all
  with h m' z show ?thesis
    by (simp add: item_timed_def double_two)
qed

text \<open>The running time of seven records for \<open>D = 0.1\<close>, one rounded addition at a time.\<close>

lemma tenth_double: "lit double_arith (1 / 10) = 3602879701896397 / 36028797018963968"
  by code_simp

lemma tenth_sum_1:
  "fadd double_arith 0 (3602879701896397 / 36028797018963968)
     = 3602879701896397 / 36028797018963968"
  by code_simp

lemma tenth_sum_2:
  "fadd double_arith (3602879701896397 / 36028797018963968)
     (3602879701896397 / 36028797018963968) = 3602879701896397 / 18014398509481984"
  by code_simp

lemma tenth_sum_3:
  "fadd double_arith (3602879701896397 / 18014398509481984)
     (3602879701896397 / 36028797018963968) = 1351079888211149 / 4503599627370496"
  by code_simp

lemma tenth_sum_4:
  "fadd double_arith (1351079888211149 / 4503599627370496)
     (3602879701896397 / 36028797018963968) = 3602879701896397 / 9007199254740992"
  by code_simp

lemma tenth_sum_5:
  "fadd double_arith (3602879701896397 / 9007199254740992)
     (3602879701896397 / 36028797018963968) = 1 / 2"
  by code_simp

lemma tenth_sum_6:
  "fadd double_arith (1 / 2) (3602879701896397 / 36028797018963968)
     = 5404319552844595 / 9007199254740992"
  by code_simp

lemma tenth_times_6:
  "fmul double_arith 6 (3602879701896397 / 36028797018963968)
     = 1351079888211149 / 2251799813685248"
  by code_simp

lemma seven_need_fallback: "need_fallback (replicate 7 item_untimed)"
  by (simp add: need_fallback_def item_untimed_def list_ex_iff)

lemma seventh_slot:
  "t0 (fst (apply_sequential_fallback double_arith (lit double_arith (1 / 10)) (\<lambda>p. p)
              (replicate 7 item_untimed)) ! 6)
     = Some (5404319552844595 / 9007199254740992)"
proof -
  note nf = seven_need_fallback
  have six: "(6 :: nat) = Suc (Suc (Suc (Suc (Suc (Suc 0)))))"
    by simp
  have "t0 (assign_slots double_arith (lit double_arith (1 / 10)) 0
              (sort_key (fallback_key (\<lambda>p. p)) (replicate 7 item_untimed)) ! 6)
      = Some (((\<lambda>t. fadd double_arith t (lit double_arith (1 / 10))) ^^ 6) 0)"
    by (rule t0_assign_slots) simp
  also have "((\<lambda>t. fadd double_arith t (lit double_arith (1 / 10))) ^^ 6) 0
      = 5404319552844595 / 9007199254740992"
    by (simp only: six funpow.simps o_apply id_apply tenth_double
        tenth_sum_1 tenth_sum_2 tenth_sum_3 tenth_sum_4 tenth_sum_5 tenth_sum_6)
  finally show ?thesis
    using nf by (simp add: apply_sequential_fallback_def)
qed

text \<open>
  With \<^verbatim>\<open>DEFAULT_CLIP_SECS=0.1\<close> the additions are not exact: on doubles the running
  time of the seventh record is \<open>0.6\<close>, the double \<open>5404319552844595 / 2 ^ 53\<close>, which is
  neither the product \<^verbatim>\<open>6 * 0.1\<close> of doubles, \<open>0.6000000000000001\<close>, nor six times the
  number that \<open>0.1\<close> denotes.
\<close>

theorem running_sum_counterexample:
  "need_fallback (replicate 7 item_untimed)
   \<and> t0 (fst (apply_sequential_fallback double_arith (lit double_arith (1 / 10)) (\<lambda>p. p)
                (replicate 7 item_untimed)) ! 6)
       = Some (5404319552844595 / 9007199254740992)
   \<and> fmul double_arith 6 (lit double_arith (1 / 10)) = 1351079888211149 / 2251799813685248
   \<and> 6 * lit double_arith (1 / 10) = 10808639105689191 / 18014398509481984
   \<and> t0 (fst (apply_sequential_fallback double_arith (lit double_arith (1 / 10)) (\<lambda>p. p)
                (replicate 7 item_untimed)) ! 6)
       \<noteq> Some (fmul double_arith 6 (lit double_arith (1 / 10)))
   \<and> t0 (fst (apply_sequential_fallback double_arith (lit double_arith (1 / 10)) (\<lambda>p. p)
                (replicate 7 item_untimed)) ! 6)
       \<noteq> Some (6 * lit double_arith (1 / 10))"
proof (intro conjI)
  show "need_fallback (replicate 7 item_untimed)"
    by (rule seven_need_fallback)
  show "t0 (fst (apply_sequential_fallback double_arith (lit double_arith (1 / 10)) (\<lambda>p. p)
                (replicate 7 item_untimed)) ! 6)
       = Some (5404319552844595 / 9007199254740992)"
    by (rule seventh_slot)
  show "fmul double_arith 6 (lit double_arith (1 / 10)) = 1351079888211149 / 2251799813685248"
    by (simp only: tenth_double tenth_times_6)
  show "6 * lit double_arith (1 / 10) = 10808639105689191 / 18014398509481984"
    by (simp add: tenth_double)
  show "t0 (fst (apply_sequential_fallback double_arith (lit double_arith (1 / 10)) (\<lambda>p. p)
                (replicate 7 item_untimed)) ! 6)
       \<noteq> Some (fmul double_arith 6 (lit double_arith (1 / 10)))"
    unfolding seventh_slot by (simp add: tenth_double tenth_times_6)
  show "t0 (fst (apply_sequential_fallback double_arith (lit double_arith (1 / 10)) (\<lambda>p. p)
                (replicate 7 item_untimed)) ! 6)
       \<noteq> Some (6 * lit double_arith (1 / 10))"
    unfolding seventh_slot by (simp add: tenth_double)
qed

subsection \<open>C6: a record without a path ends the run\<close>














subsection \<open>C4: the bounds of the clean motion segment\<close>

text \<open>The doubles that the literals of the detector denote, and the clip length 1.3.\<close>

lemma double_literals:
  "lit double_arith (1 / 10) = 3602879701896397 / 36028797018963968"
  "lit double_arith (1 / 20) = 3602879701896397 / 72057594037927936"
  "lit double_arith (7 / 10) = 3152519739159347 / 4503599627370496"
  "lit double_arith (17 / 20) = 7656119366529843 / 9007199254740992"
  "lit double_arith (1 / 5) = 3602879701896397 / 18014398509481984"
  "lit double_arith (2 / 5) = 3602879701896397 / 9007199254740992"
  "lit double_arith (3 / 5) = 5404319552844595 / 9007199254740992"
  "lit double_arith (4 / 5) = 3602879701896397 / 4503599627370496"
  "lit double_arith (13 / 10) = 5854679515581645 / 4503599627370496"
  by code_simp+

text \<open>The products, the sum and the difference of the detector for clips of 1, 1.3 and 5 seconds.\<close>

lemma one_second_values:
  "fmul double_arith 1 (3602879701896397 / 36028797018963968) = 3602879701896397 / 36028797018963968"
  "fmul double_arith 1 (3602879701896397 / 72057594037927936) = 3602879701896397 / 72057594037927936"
  "fmul double_arith 1 (3152519739159347 / 4503599627370496) = 3152519739159347 / 4503599627370496"
  "fmul double_arith 1 (7656119366529843 / 9007199254740992) = 7656119366529843 / 9007199254740992"
  "fmul double_arith 1 (3602879701896397 / 18014398509481984) = 3602879701896397 / 18014398509481984"
  "fmul double_arith 1 (5404319552844595 / 9007199254740992) = 5404319552844595 / 9007199254740992"
  "fadd double_arith (3602879701896397 / 36028797018963968) 1 = 2476979795053773 / 2251799813685248"
  "fsub double_arith (2476979795053773 / 2251799813685248) (3602879701896397 / 36028797018963968) = 1"
  by code_simp+

lemma short_clip_values:
  "fmul double_arith (5854679515581645 / 4503599627370496) (3602879701896397 / 36028797018963968) = 1170935903116329 / 9007199254740992"
  "fmul double_arith (5854679515581645 / 4503599627370496) (3602879701896397 / 72057594037927936) = 1170935903116329 / 18014398509481984"
  "fmul double_arith (5854679515581645 / 4503599627370496) (3152519739159347 / 4503599627370496) = 4098275660907151 / 4503599627370496"
  "fmul double_arith (5854679515581645 / 4503599627370496) (7656119366529843 / 9007199254740992) = 2488238794122199 / 2251799813685248"
  "fadd double_arith (1170935903116329 / 9007199254740992) 1 = 1272266894732165 / 1125899906842624"
  "fsub double_arith (1272266894732165 / 1125899906842624) (1170935903116329 / 9007199254740992) = 9007199254740991 / 9007199254740992"
  by code_simp+

lemma five_second_values:
  "fmul double_arith 5 (3602879701896397 / 36028797018963968) = 1 / 2"
  "fmul double_arith 5 (3602879701896397 / 72057594037927936) = 1 / 4"
  "fmul double_arith 5 (3152519739159347 / 4503599627370496) = 7 / 2"
  "fmul double_arith 5 (7656119366529843 / 9007199254740992) = 17 / 4"
  "fmul double_arith 5 (3602879701896397 / 18014398509481984) = 1"
  "fmul double_arith 5 (5404319552844595 / 9007199254740992) = 3"
  "fadd double_arith (1 / 2) 1 = 3 / 2"
  "fsub double_arith (7 / 2) (1 / 2) = 3"
  by code_simp+

lemma three_quarter_values:
  "fmul double_arith (3 / 4) (3602879701896397 / 36028797018963968) = 1351079888211149 / 18014398509481984"
  "fmul double_arith (3 / 4) (3602879701896397 / 4503599627370496) = 1351079888211149 / 2251799813685248"
  by code_simp+

lemma double_still: "lit double_arith (17 / 20) \<le> 1" "fsub double_arith 1 1 = 0"
  by code_simp+

text \<open>
  On doubles \<^verbatim>\<open>0.75 * 0.8\<close> is \<open>0.6000000000000001\<close>: the start scan of a clip of 0.75
  seconds still probes the frame at 0.6 seconds, and takes it when the motion starts
  there.
\<close>

lemma start_scan_three_quarters:
  "start_scan double_arith (\<lambda>t. if t = lit double_arith (3 / 5) then Some 0 else Some 1) (3 / 4)
     (fmul double_arith (3 / 4) (lit double_arith (1 / 10)))
     (map (lit double_arith) [1 / 5, 2 / 5, 3 / 5, 4 / 5, 1])
   = lit double_arith (3 / 5)"
  by (simp add: double_literals three_quarter_values)

text \<open>Frames that never change: both scans keep their defaults.\<close>

lemma start_scan_still:
  "lit fl (17 / 20) \<le> 1 \<Longrightarrow> start_scan fl (\<lambda>t. Some 1) d ms cs = ms"
  by (induction cs) simp_all

lemma end_scan_still:
  "fsub fl 1 1 = 0 \<Longrightarrow> end_scan fl (\<lambda>t. Some 1) (me, 0) cs = (me, 0)"
  by (induction cs) simp_all

lemma still_segment:
  assumes "lit fl (17 / 20) \<le> 1" and "fsub fl 1 1 = 0"
  shows "find_clean_motion_segment fl still_probes d
    = (max (fmul fl d (lit fl (1 / 10))) (fmul fl d (lit fl (1 / 20))),
       fsub fl
         (max (min (fmul fl d (lit fl (7 / 10))) (fmul fl d (lit fl (17 / 20))))
            (fadd fl (max (fmul fl d (lit fl (1 / 10))) (fmul fl d (lit fl (1 / 20)))) 1))
         (max (fmul fl d (lit fl (1 / 10))) (fmul fl d (lit fl (1 / 20)))),
       0)"
  unfolding find_clean_motion_segment_def still_probes_def
  by (simp add: start_scan_still [OF assms(1)] end_scan_still [OF assms(2)] Let_def
        del: start_scan.simps end_scan.simps list.map)

lemma still_one_second:
  "find_clean_motion_segment double_arith still_probes 1
     = (3602879701896397 / 36028797018963968, 1, 0)"
  by (simp add: still_segment double_still double_literals one_second_values)

lemma still_short_clip:
  "find_clean_motion_segment double_arith still_probes (lit double_arith (13 / 10))
     = (1170935903116329 / 9007199254740992, 9007199254740991 / 9007199254740992, 0)"
  by (simp add: still_segment double_still double_literals short_clip_values)

lemma still_five_seconds:
  "find_clean_motion_segment double_arith still_probes 5 = (1 / 2, 3, 0)"
  by (simp add: still_segment double_still double_literals five_second_values)

lemma no_reference_one_second:
  "find_clean_motion_segment double_arith (still_probes\<lparr>ref_ok := False\<rparr>) 1
     = (3602879701896397 / 18014398509481984, 5404319552844595 / 9007199254740992, 0)"
  by (simp add: find_clean_motion_segment_def still_probes_def double_literals one_second_values)

lemma no_reference_five_seconds:
  "find_clean_motion_segment double_arith (still_probes\<lparr>ref_ok := False\<rparr>) 5 = (1, 3, 0)"
  by (simp add: find_clean_motion_segment_def still_probes_def double_literals five_second_values)

text \<open>
  C4.  When the reference frame is extracted and the temporary files are removed, the
  detector returns, for every duration \<open>d\<close>, whatever the other probes do and whatever
  the float operations round to, a \<open>motion_start\<close> that is at least the float
  \<^verbatim>\<open>duration * 0.05\<close>, and a \<open>clean_duration\<close> that is the float difference
  \<^verbatim>\<open>motion_end - motion_start\<close> for a \<open>motion_end\<close> that is at least the float
  \<^verbatim>\<open>motion_start + 1.0\<close>, and at most the float \<^verbatim>\<open>duration * 0.85\<close> whenever
  \<^verbatim>\<open>motion_start + 1.0\<close> is.  (The last clamp, one second after \<open>motion_start\<close>,
  overrides the 85% cap on shorter clips.)  When the extraction of the reference frame or
  the clean-up raises, the detector returns the floats
  \<^verbatim>\<open>(duration * 0.2, duration * 0.6, 0.0)\<close>.
\<close>

theorem clean_motion_segment_bounds:
  "(ref_ok pr \<and> cleanup_ok pr \<longrightarrow>
      (case find_clean_motion_segment fl pr d of
         (motion_start, clean_duration, motion_strength) \<Rightarrow>
           fmul fl d (lit fl (1 / 20)) \<le> motion_start
           \<and> (\<exists>motion_end.
                 clean_duration = fsub fl motion_end motion_start
                 \<and> fadd fl motion_start 1 \<le> motion_end
                 \<and> (fadd fl motion_start 1 \<le> fmul fl d (lit fl (17 / 20))
                      \<longrightarrow> motion_end \<le> fmul fl d (lit fl (17 / 20))))))
   \<and> (\<not> (ref_ok pr \<and> cleanup_ok pr) \<longrightarrow>
        find_clean_motion_segment fl pr d
          = (fmul fl d (lit fl (1 / 5)), fmul fl d (lit fl (3 / 5)), 0))"
proof (rule conjI; rule impI)
  assume ok: "ref_ok pr \<and> cleanup_ok pr"
  define ms0 where "ms0 = start_scan fl (start_probe pr) d (fmul fl d (lit fl (1 / 10)))
      (map (lit fl) [1 / 5, 2 / 5, 3 / 5, 4 / 5, 1])"
  define ms where "ms = max ms0 (fmul fl d (lit fl (1 / 20)))"
  obtain me0 mx where es: "end_scan fl (end_probe pr) (fmul fl d (lit fl (7 / 10)), 0)
      (np_arange fl (fadd fl ms0 (lit fl (1 / 2))) (fmul fl d (lit fl (17 / 20))) (lit fl (3 / 20)))
      = (me0, mx)"
    by (cases "end_scan fl (end_probe pr) (fmul fl d (lit fl (7 / 10)), 0)
      (np_arange fl (fadd fl ms0 (lit fl (1 / 2))) (fmul fl d (lit fl (17 / 20)))
         (lit fl (3 / 20)))") simp
  define me where "me = max (min me0 (fmul fl d (lit fl (17 / 20)))) (fadd fl ms 1)"
  have r: "find_clean_motion_segment fl pr d = (ms, fsub fl me ms, mx)"
    unfolding find_clean_motion_segment_def Let_def ms0_def [symmetric] es me_def ms_def
    using ok by simp
  have "fmul fl d (lit fl (1 / 20)) \<le> ms"
    by (simp add: ms_def)
  moreover have "fadd fl ms 1 \<le> me"
    by (simp add: me_def)
  moreover have "fadd fl ms 1 \<le> fmul fl d (lit fl (17 / 20))
      \<longrightarrow> me \<le> fmul fl d (lit fl (17 / 20))"
    by (simp add: me_def)
  ultimately show "case find_clean_motion_segment fl pr d of
         (motion_start, clean_duration, motion_strength) \<Rightarrow>
           fmul fl d (lit fl (1 / 20)) \<le> motion_start
           \<and> (\<exists>motion_end.
                 clean_duration = fsub fl motion_end motion_start
                 \<and> fadd fl motion_start 1 \<le> motion_end
                 \<and> (fadd fl motion_start 1 \<le> fmul fl d (lit fl (17 / 20))
                      \<longrightarrow> motion_end \<le> fmul fl d (lit fl (17 / 20))))"
    unfolding r prod.case by blast
next
  assume "\<not> (ref_ok pr \<and> cleanup_ok pr)"
  then show "find_clean_motion_segment fl pr d
      = (fmul fl d (lit fl (1 / 5)), fmul fl d (lit fl (3 / 5)), 0)"
    by (auto simp: find_clean_motion_segment_def Let_def split: prod.splits)
qed

text \<open>
  A clip of five seconds whose frames never change, on doubles: the segment is
  \<open>[0.5, 3.5]\<close>, inside the cap \<open>4.25\<close>; without the reference frame, \<open>(1, 3, 0)\<close>.
\<close>

theorem clean_motion_segment_bounds_witness:
  "ref_ok still_probes \<and> cleanup_ok still_probes
   \<and> find_clean_motion_segment double_arith still_probes 5 = (1 / 2, 3, 0)
   \<and> fmul double_arith 5 (lit double_arith (1 / 20)) = 1 / 4
   \<and> fmul double_arith 5 (lit double_arith (17 / 20)) = 17 / 4
   \<and> fadd double_arith (1 / 2) 1 = 3 / 2
   \<and> (\<exists>motion_end. 3 = fsub double_arith motion_end (1 / 2)
         \<and> 3 / 2 \<le> motion_end \<and> motion_end \<le> 17 / 4)
   \<and> \<not> (ref_ok (still_probes\<lparr>ref_ok := False\<rparr>) \<and> cleanup_ok (still_probes\<lparr>ref_ok := False\<rparr>))
   \<and> find_clean_motion_segment double_arith (still_probes\<lparr>ref_ok := False\<rparr>) 5
       = (fmul double_arith 5 (lit double_arith (1 / 5)),
          fmul double_arith 5 (lit double_arith (3 / 5)), 0)"
proof -
  have ok: "ref_ok still_probes \<and> cleanup_ok still_probes"
    by (simp add: still_probes_def)
  have bad: "\<not> (ref_ok (still_probes\<lparr>ref_ok := False\<rparr>) \<and> cleanup_ok (still_probes\<lparr>ref_ok := False\<rparr>))"
    by simp
  have v: "fmul double_arith 5 (lit double_arith (1 / 20)) = 1 / 4"
    "fmul double_arith 5 (lit double_arith (17 / 20)) = 17 / 4"
    "fadd double_arith (1 / 2) 1 = 3 / 2"
    by (simp_all add: double_literals five_second_values)
  from clean_motion_segment_bounds [of still_probes double_arith 5, THEN conjunct1, THEN mp, OF ok]
  have "case find_clean_motion_segment double_arith still_probes 5 of
         (motion_start, clean_duration, motion_strength) \<Rightarrow>
           fmul double_arith 5 (lit double_arith (1 / 20)) \<le> motion_start
           \<and> (\<exists>motion_end.
                 clean_duration = fsub double_arith motion_end motion_start
                 \<and> fadd double_arith motion_start 1 \<le> motion_end
                 \<and> (fadd double_arith motion_start 1
                        \<le> fmul double_arith 5 (lit double_arith (17 / 20))
                      \<longrightarrow> motion_end \<le> fmul double_arith 5 (lit double_arith (17 / 20))))" .
  then have e: "\<exists>motion_end. 3 = fsub double_arith motion_end (1 / 2)
         \<and> 3 / 2 \<le> motion_end \<and> motion_end \<le> 17 / 4"
    unfolding still_five_seconds prod.case v by simp
  from clean_motion_segment_bounds [of "still_probes\<lparr>ref_ok := False\<rparr>" double_arith 5,
      THEN conjunct2, THEN mp, OF bad]
  have n: "find_clean_motion_segment double_arith (still_probes\<lparr>ref_ok := False\<rparr>) 5
       = (fmul double_arith 5 (lit double_arith (1 / 5)),
          fmul double_arith 5 (lit double_arith (3 / 5)), 0)" .
  from ok still_five_seconds v e bad n show ?thesis
    by (intro conjI) simp_all
qed

text \<open>
  A clip of one second whose frames never change, on doubles: the detector returns
  \<open>(0.1, 1.0, 0.0)\<close>, a segment that ends at \<open>1.1\<close>, after the clip and after the cap
  \<open>0.85\<close>; no segment of one second fits under the cap.  For a clip of 1.3 seconds the
  difference \<^verbatim>\<open>1.13 - 0.13\<close> is \<open>0.9999999999999999\<close>, below one second.  Without the
  reference frame the clip of one second gets \<open>(0.2, 0.6, 0.0)\<close>.
\<close>

theorem short_clip_bounds_counterexample:
  "find_clean_motion_segment double_arith still_probes 1
     = (3602879701896397 / 36028797018963968, 1, 0)
   \<and> fmul double_arith 1 (lit double_arith (17 / 20)) = 7656119366529843 / 9007199254740992
   \<and> 7656119366529843 / 9007199254740992 < 3602879701896397 / 36028797018963968 + (1 :: rat)
   \<and> find_clean_motion_segment double_arith still_probes (lit double_arith (13 / 10))
       = (1170935903116329 / 9007199254740992, 9007199254740991 / 9007199254740992, 0)
   \<and> 9007199254740991 / 9007199254740992 < (1 :: rat)
   \<and> find_clean_motion_segment double_arith (still_probes\<lparr>ref_ok := False\<rparr>) 1
       = (3602879701896397 / 18014398509481984, 5404319552844595 / 9007199254740992, 0)
   \<and> 5404319552844595 / 9007199254740992 < (1 :: rat)"
proof (intro conjI)
  show "find_clean_motion_segment double_arith still_probes 1
     = (3602879701896397 / 36028797018963968, 1, 0)"
    by (rule still_one_second)
  show "fmul double_arith 1 (lit double_arith (17 / 20)) = 7656119366529843 / 9007199254740992"
    by (simp add: double_literals one_second_values)
  show "find_clean_motion_segment double_arith still_probes (lit double_arith (13 / 10))
       = (1170935903116329 / 9007199254740992, 9007199254740991 / 9007199254740992, 0)"
    by (rule still_short_clip)
  show "find_clean_motion_segment double_arith (still_probes\<lparr>ref_ok := False\<rparr>) 1
       = (3602879701896397 / 18014398509481984, 5404319552844595 / 9007199254740992, 0)"
    by (rule no_reference_one_second)
qed simp_all

subsection \<open>C9: the order in which the stitchers take the items\<close>

lemma length_keys_of: "keys_of items = Inr ks \<Longrightarrow> length ks = length items"
  by (induction items arbitrary: ks) (auto split: sum.splits)

lemma sorted_keys_keep_order:
  assumes "length ks = length items" and "sorted ks"
  shows "map snd (sort_key fst (zip ks items)) = items"
proof -
  from assms have "sorted (map fst (zip ks items))"
    by simp
  then have "sort_key fst (zip ks items) = zip ks items"
    by (rule sort_key_id_if_sorted)
  with assms(1) show ?thesis
    by simp
qed

text \<open>The key of an item is a function of the item, so the converse holds for the items.\<close>

lemma keys_of_map:
  "keys_of items = Inr ks \<Longrightarrow>
     ks = map (\<lambda>it. case keyf it of Inr k \<Rightarrow> k | Inl e \<Rightarrow> (0, 0)) items"
  by (induction items arbitrary: ks) (auto split: sum.splits)

lemma kept_order_sorted_keys:
  assumes "keys_of items = Inr ks" and "map snd (sort_key fst (zip ks items)) = items"
  shows "sorted ks"
proof -
  define kf where "kf = (\<lambda>it. case keyf it of Inr k \<Rightarrow> k | Inl e \<Rightarrow> (0 :: rat, 0 :: rat))"
  define zs where "zs = sort_key fst (zip ks items)"
  from keys_of_map [OF assms(1)] have ks: "ks = map kf items"
    by (simp add: kf_def)
  have "set zs = set (zip ks items)"
    by (simp add: zs_def)
  then have "\<forall>p \<in> set zs. fst p = kf (snd p)"
    unfolding ks by (auto simp: zip_map1 zip_same)
  then have "map fst zs = map kf (map snd zs)"
    by simp
  also from assms(2) have "map snd zs = items"
    by (simp add: zs_def)
  finally have "map fst zs = ks"
    by (simp add: ks)
  moreover have "sorted (map fst zs)"
    unfolding zs_def by (rule sorted_sort_key)
  ultimately show ?thesis
    by simp
qed

lemma filter_all_exist: "filter (\<lambda>p. \<not> exists p) ps = [] \<Longrightarrow> filter exists ps = ps"
  by (induction ps) (auto split: if_splits)

lemma trimmed_inputs_order:
  "trimmed_inputs str_other items = Inr inputs \<Longrightarrow>
     length inputs = length items
     \<and> (\<forall>k < length items. \<exists>d. items ! k = JObj d
           \<and> inputs ! k = (case map_of d ''path'' of None \<Rightarrow> ''None''
                            | Some v \<Rightarrow> path_text str_other v))"
proof (induction items arbitrary: inputs)
  case Nil
  then show ?case by simp
next
  case (Cons it rest)
  from Cons.prems obtain d ps where it: "it = JObj d"
    and ps: "trimmed_inputs str_other rest = Inr ps"
    and inputs: "inputs = (case map_of d ''path'' of None \<Rightarrow> ''None''
                            | Some v \<Rightarrow> path_text str_other v) # ps"
    by (auto split: json.splits sum.splits)
  from Cons.IH [OF ps] have len: "length ps = length rest"
    and nth: "\<forall>k < length rest. \<exists>d. rest ! k = JObj d
           \<and> ps ! k = (case map_of d ''path'' of None \<Rightarrow> ''None''
                            | Some v \<Rightarrow> path_text str_other v)"
    by simp_all
  show ?case
  proof (intro conjI allI impI)
    show "length inputs = length (it # rest)"
      by (simp add: inputs len)
    fix k
    assume "k < length (it # rest)"
    then show "\<exists>d. (it # rest) ! k = JObj d
           \<and> inputs ! k = (case map_of d ''path'' of None \<Rightarrow> ''None''
                            | Some v \<Rightarrow> path_text str_other v)"
      using it inputs nth by (cases k) auto
  qed
qed

lemma keys_late_early: "keys_of [late_item, early_item] = Inr [(5, 10), (0, 5)]"
  by (simp add: keyf_def get_or_def float_of_def late_item_def early_item_def)

lemma stitch_late_early:
  "stitch_files (\<lambda>p. True) (\<lambda>v. []) (JArr [late_item, early_item])
     = Inr [''early.mp4'', ''late.mp4'']"
proof -
  have "listed_paths (\<lambda>v. []) [early_item, late_item] = [''early.mp4'', ''late.mp4'']"
    by (simp add: listed_paths_def path_text_def truthy_def late_item_def early_item_def)
  then show ?thesis
    unfolding stitch_files_def by (simp add: keys_late_early del: keys_of.simps)
qed

lemma keys_early_late: "keys_of [early_item, late_item] = Inr [(0, 5), (5, 10)]"
  by (simp add: keyf_def get_or_def float_of_def late_item_def early_item_def)

lemma listed_early_late:
  "listed_paths (\<lambda>v. []) [early_item, late_item] = [''early.mp4'', ''late.mp4'']"
  by (simp add: listed_paths_def path_text_def truthy_def late_item_def early_item_def)

lemma stitch_early_late:
  "stitch_files (\<lambda>p. True) (\<lambda>v. []) (JArr [early_item, late_item])
     = Inr [''early.mp4'', ''late.mp4'']"
  unfolding stitch_files_def
  by (simp add: keys_early_late listed_early_late del: keys_of.simps)

lemma trimmed_early_late:
  "create_trimmed_video (\<lambda>v. []) [(''items'', JArr [early_item, late_item])]
     = Inr [''early.mp4'', ''late.mp4'']"
  by (simp add: create_trimmed_video_def path_text_def late_item_def early_item_def)

text \<open>
  C9.  \<^verbatim>\<open>stitch_from_manifest.py\<close> sorts the items of the manifest by \<open>(t0, t1)\<close>,
  stably, before it lists the files: the files it concatenates are the paths of the sorted
  items.  The sorted items are the items of the manifest, in its order, exactly when the
  manifest is already sorted by its time bounds, and the files are then concatenated in
  the order of the manifest.  \<^verbatim>\<open>create_trimmed_video\<close> takes the items in the order of
  the list: input \<open>k\<close> of the \<^verbatim>\<open>ffmpeg\<close> command is the path of item \<open>k\<close>.
\<close>

theorem stitch_sorts_by_time_bounds:
  "(stitch_files exists str_other (JArr items) = Inr files \<longrightarrow>
      (\<exists>ks. keys_of items = Inr ks
         \<and> files = listed_paths str_other (map snd (sort_key fst (zip ks items)))
         \<and> sorted (map fst (sort_key fst (zip ks items)))
         \<and> ((map snd (sort_key fst (zip ks items)) = items) = sorted ks)
         \<and> (sorted ks \<longrightarrow> files = listed_paths str_other items)))
   \<and> (create_trimmed_video str_other manifest_data = Inr inputs
        \<and> map_of manifest_data ''items'' = Some (JArr items) \<longrightarrow>
      length inputs = length items
      \<and> (\<forall>k < length items. \<exists>d. items ! k = JObj d
           \<and> inputs ! k = (case map_of d ''path'' of None \<Rightarrow> ''None''
                            | Some v \<Rightarrow> path_text str_other v)))"
proof (rule conjI; rule impI)
  assume s: "stitch_files exists str_other (JArr items) = Inr files"
  then obtain ks where ks: "keys_of items = Inr ks"
    by (auto simp: stitch_files_def split: if_splits sum.splits)
  define ps where "ps = listed_paths str_other (map snd (sort_key fst (zip ks items)))"
  from s ks have m: "filter (\<lambda>p. \<not> exists p) ps = []" and f: "files = filter exists ps"
    by (auto simp: stitch_files_def Let_def ps_def split: if_splits)
  from filter_all_exist [OF m] f have files: "files = ps"
    by simp
  have "sorted ks \<longrightarrow> files = listed_paths str_other items"
    using sorted_keys_keep_order [OF length_keys_of [OF ks]] files
    by (simp add: ps_def)
  moreover have "sorted (map fst (sort_key fst (zip ks items)))"
    by (rule sorted_sort_key)
  moreover have "(map snd (sort_key fst (zip ks items)) = items) = sorted ks"
    using kept_order_sorted_keys [OF ks] sorted_keys_keep_order [OF length_keys_of [OF ks]]
    by blast
  ultimately have "keys_of items = Inr ks
         \<and> files = listed_paths str_other (map snd (sort_key fst (zip ks items)))
         \<and> sorted (map fst (sort_key fst (zip ks items)))
         \<and> ((map snd (sort_key fst (zip ks items)) = items) = sorted ks)
         \<and> (sorted ks \<longrightarrow> files = listed_paths str_other items)"
    using ks files by (simp add: ps_def)
  then show "\<exists>ks. keys_of items = Inr ks
         \<and> files = listed_paths str_other (map snd (sort_key fst (zip ks items)))
         \<and> sorted (map fst (sort_key fst (zip ks items)))
         \<and> ((map snd (sort_key fst (zip ks items)) = items) = sorted ks)
         \<and> (sorted ks \<longrightarrow> files = listed_paths str_other items)"
    by (rule exI)
next
  assume "create_trimmed_video str_other manifest_data = Inr inputs
        \<and> map_of manifest_data ''items'' = Some (JArr items)"
  then have "trimmed_inputs str_other items = Inr inputs"
    by (auto simp: create_trimmed_video_def split: if_splits)
  then show "length inputs = length items
      \<and> (\<forall>k < length items. \<exists>d. items ! k = JObj d
           \<and> inputs ! k = (case map_of d ''path'' of None \<Rightarrow> ''None''
                            | Some v \<Rightarrow> path_text str_other v))"
    by (rule trimmed_inputs_order)
qed

theorem stitch_sorts_by_time_bounds_witness:
  "stitch_files (\<lambda>p. True) (\<lambda>v. []) (JArr [early_item, late_item])
     = Inr [''early.mp4'', ''late.mp4'']
   \<and> keys_of [early_item, late_item] = Inr [(0, 5), (5, 10)]
   \<and> sorted [(0 :: rat, 5 :: rat), (5, 10)]
   \<and> [''early.mp4'', ''late.mp4''] = listed_paths (\<lambda>v. []) [early_item, late_item]
   \<and> create_trimmed_video (\<lambda>v. []) [(''items'', JArr [early_item, late_item])]
       = Inr [''early.mp4'', ''late.mp4'']
   \<and> length [''early.mp4'', ''late.mp4''] = length [early_item, late_item]"
proof -
  have m: "map_of [(''items'', JArr [early_item, late_item])] ''items''
      = Some (JArr [early_item, late_item])"
    by simp
  have srt: "sorted [(0 :: rat, 5 :: rat), (5, 10)]"
    by simp
  from stitch_sorts_by_time_bounds
    [where exists = "\<lambda>p. True" and str_other = "\<lambda>v. []"
       and items = "[early_item, late_item]" and files = "[''early.mp4'', ''late.mp4'']"
       and manifest_data = "[(''items'', JArr [early_item, late_item])]"
       and inputs = "[''early.mp4'', ''late.mp4'']"]
    stitch_early_late trimmed_early_late m
  have "\<exists>ks. keys_of [early_item, late_item] = Inr ks
         \<and> (sorted ks \<longrightarrow> [''early.mp4'', ''late.mp4'']
              = listed_paths (\<lambda>v. []) [early_item, late_item])"
    and "length [''early.mp4'', ''late.mp4''] = length [early_item, late_item]"
    by blast+
  with keys_early_late srt stitch_early_late trimmed_early_late show ?thesis
    by auto
qed

theorem stitch_order_counterexample:
  "stitch_files (\<lambda>p. True) (\<lambda>v. []) (JArr [late_item, early_item])
     = Inr [''early.mp4'', ''late.mp4'']
   \<and> listed_paths (\<lambda>v. []) [late_item, early_item] = [''late.mp4'', ''early.mp4'']
   \<and> [''early.mp4'', ''late.mp4''] \<noteq> [''late.mp4'', ''early.mp4'']"
  by (simp add: stitch_late_early)
    (simp add: listed_paths_def path_text_def truthy_def late_item_def early_item_def)

subsection \<open>C10: the refinement pass when every item is dropped\<close>

lemma gone_item_skipped:
  "process_item empty_disk (JObj [(''path'', JStr ''gone.mp4''), (''t0'', JNum 0), (''t1'', JNum 5)])
     = Inr None"
  by (simp add: process_item_def empty_disk_def)

text \<open>
  C10.  The pass should drop an item whose file does not exist without raising an error.
  On a manifest whose only item names a file that is gone, the item is dropped and the
  manifest is written with no item, the transitions unchanged and the statistics added;
  the summary then divides the time saved by the number of processed items, which is
  zero, and the pass ends with \<^verbatim>\<open>ZeroDivisionError\<close>.
\<close>

theorem all_items_dropped_raises:
  "process_smart_manifest_with_loop_detection empty_disk gone_manifest
     = \<lparr>written = Some [(''version'', JStr ''smart_v1''),
                         (''items'', JArr []),
                         (''transitions'', JArr []),
                         (''loop_detection'',
                            JObj [(''total_clips'', JNum 0), (''total_time_saved'', JNum 0),
                                  (''trimming_method'', JStr ''start_and_end'')])],
        raised = Some ZeroDivisionError\<rparr>"
  by (simp add: process_smart_manifest_with_loop_detection_def gone_manifest_def
        gone_item_skipped dict_set_def)

subsection \<open>The refinement pass on the items it keeps\<close>

lemma map_of_dict_set: "map_of (dict_set k v d) k' = (if k' = k then Some v else map_of d k')"
  by (simp add: dict_set_def update_conv')

lemma process_items_acc:
  "process_items env (acc, tot) items = Inr (processed, saved) \<Longrightarrow>
     processed = acc @ concat (map (\<lambda>it. case process_item env it of
                                           Inr (Some (n, t)) \<Rightarrow> [JObj n] | _ \<Rightarrow> []) items)"
proof (induction items arbitrary: acc tot)
  case Nil
  then show ?case by simp
next
  case (Cons it rest)
  show ?case
  proof (cases "process_item env it")
    case (Inl e)
    with Cons.prems show ?thesis by simp
  next
    case (Inr res)
    show ?thesis
    proof (cases res)
      case None
      with Inr Cons.prems have "process_items env (acc, tot) rest = Inr (processed, saved)"
        by simp
      from Cons.IH [OF this] Inr None show ?thesis by simp
    next
      case (Some nt)
      obtain n t where nt: "nt = (n, t)" by (cases nt)
      with Inr Some Cons.prems
      have "process_items env (acc @ [JObj n], fadd (float_ops env) tot t) rest
          = Inr (processed, saved)"
        by simp
      from Cons.IH [OF this] Inr Some nt show ?thesis by simp
    qed
  qed
qed

text \<open>The float operations of the pass on the clip of five seconds.\<close>

lemma refined_values:
  "fadd double_arith 0 3 = 3"
  "fsub double_arith 5 3 = 2"
  "fadd double_arith 0 2 = 2"
  by code_simp+

lemma full_disk_floats: "float_ops full_disk = double_arith"
  by (simp add: full_disk_def)

lemma kept_item_refined:
  "process_item full_disk (JObj kept_item) = Inr (Some (refined_item, 2))"
  by (simp add: process_item_def full_disk_def kept_item_def still_five_seconds dict_set_def
        refined_item_def refined_values)

lemma kept_manifest_pass:
  "process_smart_manifest_with_loop_detection full_disk kept_manifest
     = \<lparr>written = Some refined_manifest, raised = None\<rparr>"
  by (simp add: process_smart_manifest_with_loop_detection_def kept_manifest_def
        kept_item_refined dict_set_def refined_manifest_def refined_values full_disk_floats)

text \<open>
  X1.  An item that the pass keeps has a path that is a non-empty string and names an
  existing file.  Its refined copy carries \<^verbatim>\<open>original_duration\<close>, \<^verbatim>\<open>start_trim\<close>,
  \<^verbatim>\<open>clean_duration\<close> and \<^verbatim>\<open>motion_strength\<close> as the detector returned them, its
  \<^verbatim>\<open>t1\<close> is the float sum of \<^verbatim>\<open>t0\<close> and the clean duration, and every other field is the one of the
  input item.  An item whose path is absent, null, empty or names no existing file is
  skipped.
\<close>

theorem refined_item_fields:
  "(process_item env (JObj d) = Inr (Some (new_item, trimmed)) \<longrightarrow>
      (\<exists>video_path. map_of d ''path'' = Some (JStr video_path) \<and> video_path \<noteq> []
         \<and> path_exists env video_path
         \<and> (case find_clean_motion_segment (float_ops env) (video_probes env video_path)
                    (video_duration env video_path) of
               (start_trim, clean_duration, motion_strength) \<Rightarrow>
                 map_of new_item ''original_duration'' = Some (JNum (video_duration env video_path))
                 \<and> map_of new_item ''start_trim'' = Some (JNum start_trim)
                 \<and> map_of new_item ''clean_duration'' = Some (JNum clean_duration)
                 \<and> map_of new_item ''motion_strength'' = Some (JNum motion_strength)
                 \<and> (\<forall>x. map_of d ''t0'' = Some (JNum x)
                        \<longrightarrow> map_of new_item ''t1''
                              = Some (JNum (fadd (float_ops env) x clean_duration)))
                 \<and> trimmed = fsub (float_ops env) (video_duration env video_path) clean_duration))
      \<and> (\<forall>k. k \<notin> set [''original_duration'', ''start_trim'', ''clean_duration'',
                        ''motion_strength'', ''t1'']
             \<longrightarrow> map_of new_item k = map_of d k))
   \<and> (map_of d ''path'' = None \<or> map_of d ''path'' = Some JNull
        \<or> (\<exists>p. map_of d ''path'' = Some (JStr p) \<and> (p = [] \<or> \<not> path_exists env p))
      \<longrightarrow> process_item env (JObj d) = Inr None)"
proof (rule conjI; rule impI)
  assume a: "process_item env (JObj d) = Inr (Some (new_item, trimmed))"
  then obtain p where p: "map_of d ''path'' = Some (JStr p)" "p \<noteq> []" "path_exists env p"
    by (auto simp: process_item_def split: option.splits json.splits if_splits)
  obtain st cd ms where seg:
    "find_clean_motion_segment (float_ops env) (video_probes env p) (video_duration env p) = (st, cd, ms)"
    by (cases "find_clean_motion_segment (float_ops env) (video_probes env p) (video_duration env p)") auto
  define base_item where "base_item =
      dict_set ''motion_strength'' (JNum ms)
        (dict_set ''clean_duration'' (JNum cd)
          (dict_set ''start_trim'' (JNum st)
            (dict_set ''original_duration'' (JNum (video_duration env p)) d)))"
  have t0: "map_of base_item ''t0'' = map_of d ''t0''"
    by (simp add: base_item_def map_of_dict_set)
  from a p seg have n: "\<exists>v. new_item = dict_set ''t1'' (JNum v) base_item
      \<and> (\<forall>x. map_of d ''t0'' = Some (JNum x) \<longrightarrow> v = fadd (float_ops env) x cd)"
    and tr: "trimmed = fsub (float_ops env) (video_duration env p) cd"
    by (auto simp: process_item_def Let_def base_item_def [symmetric] t0
          split: option.splits json.splits if_splits)
  from n obtain v where new: "new_item = dict_set ''t1'' (JNum v) base_item"
    and x: "\<forall>x. map_of d ''t0'' = Some (JNum x) \<longrightarrow> v = fadd (float_ops env) x cd"
    by blast
  have fields: "map_of new_item ''original_duration'' = Some (JNum (video_duration env p))"
    "map_of new_item ''start_trim'' = Some (JNum st)"
    "map_of new_item ''clean_duration'' = Some (JNum cd)"
    "map_of new_item ''motion_strength'' = Some (JNum ms)"
    by (simp_all add: new base_item_def map_of_dict_set)
  have t1: "\<forall>y. map_of d ''t0'' = Some (JNum y)
      \<longrightarrow> map_of new_item ''t1'' = Some (JNum (fadd (float_ops env) y cd))"
    using x by (auto simp: new map_of_dict_set)
  have others: "\<forall>k. k \<notin> set [''original_duration'', ''start_trim'', ''clean_duration'',
                        ''motion_strength'', ''t1'']
             \<longrightarrow> map_of new_item k = map_of d k"
    by (simp add: new base_item_def map_of_dict_set)
  from p seg fields t1 tr others
  show "(\<exists>video_path. map_of d ''path'' = Some (JStr video_path) \<and> video_path \<noteq> []
         \<and> path_exists env video_path
         \<and> (case find_clean_motion_segment (float_ops env) (video_probes env video_path)
                    (video_duration env video_path) of
               (start_trim, clean_duration, motion_strength) \<Rightarrow>
                 map_of new_item ''original_duration'' = Some (JNum (video_duration env video_path))
                 \<and> map_of new_item ''start_trim'' = Some (JNum start_trim)
                 \<and> map_of new_item ''clean_duration'' = Some (JNum clean_duration)
                 \<and> map_of new_item ''motion_strength'' = Some (JNum motion_strength)
                 \<and> (\<forall>x. map_of d ''t0'' = Some (JNum x)
                        \<longrightarrow> map_of new_item ''t1''
                              = Some (JNum (fadd (float_ops env) x clean_duration)))
                 \<and> trimmed = fsub (float_ops env) (video_duration env video_path) clean_duration))
      \<and> (\<forall>k. k \<notin> set [''original_duration'', ''start_trim'', ''clean_duration'',
                        ''motion_strength'', ''t1'']
             \<longrightarrow> map_of new_item k = map_of d k)"
    by auto
next
  assume "map_of d ''path'' = None \<or> map_of d ''path'' = Some JNull
        \<or> (\<exists>p. map_of d ''path'' = Some (JStr p) \<and> (p = [] \<or> \<not> path_exists env p))"
  then show "process_item env (JObj d) = Inr None"
    by (auto simp: process_item_def)
qed

theorem refined_item_fields_witness:
  "process_item full_disk (JObj kept_item) = Inr (Some (refined_item, 2))
   \<and> map_of refined_item ''base'' = map_of kept_item ''base''
   \<and> map_of refined_item ''t0'' = map_of kept_item ''t0''
   \<and> map_of kept_item ''path'' = Some (JStr ''clip.mp4'')
   \<and> map_of [(''t0'', JNum 0)] ''path'' = None
   \<and> process_item full_disk (JObj [(''t0'', JNum 0)]) = Inr None"
proof -
  note t = refined_item_fields
    [where env = full_disk and d = kept_item and new_item = refined_item and trimmed = 2]
  have "''base'' \<notin> set [''original_duration'', ''start_trim'', ''clean_duration'',
                        ''motion_strength'', ''t1'']"
    and "''t0'' \<notin> set [''original_duration'', ''start_trim'', ''clean_duration'',
                        ''motion_strength'', ''t1'']"
    by simp_all
  with t kept_item_refined
  have a: "map_of refined_item ''base'' = map_of kept_item ''base''"
    and b: "map_of refined_item ''t0'' = map_of kept_item ''t0''"
    by blast+
  have n: "map_of [(''t0'', JNum 0)] ''path'' = None"
    by simp
  with refined_item_fields [where env = full_disk and d = "[(''t0'', JNum 0)]"]
  have c: "process_item full_disk (JObj [(''t0'', JNum 0)]) = Inr None"
    by blast
  have p: "map_of kept_item ''path'' = Some (JStr ''clip.mp4'')"
    by (simp add: kept_item_def)
  from kept_item_refined a b p n c show ?thesis
    by blast
qed

text \<open>
  X2.  In the manifest that the pass writes, the items are the refined copies of the kept
  items in the order of the input, and every key other than \<^verbatim>\<open>items\<close> and
  \<^verbatim>\<open>loop_detection\<close>, the \<^verbatim>\<open>transitions\<close> among them, has the value it had in the
  input manifest.
\<close>

theorem loop_pass_written_manifest:
  "process_smart_manifest_with_loop_detection env manifest_data = \<lparr>written = Some out, raised = r\<rparr>
   \<and> map_of manifest_data ''items'' = Some (JArr items) \<longrightarrow>
     (\<forall>k. k \<noteq> ''items'' \<and> k \<noteq> ''loop_detection'' \<longrightarrow> map_of out k = map_of manifest_data k)
     \<and> map_of out ''items''
         = Some (JArr (concat (map (\<lambda>it. case process_item env it of
                                          Inr (Some (n, t)) \<Rightarrow> [JObj n] | _ \<Rightarrow> []) items)))"
proof (rule impI)
  assume a: "process_smart_manifest_with_loop_detection env manifest_data
      = \<lparr>written = Some out, raised = r\<rparr>
   \<and> map_of manifest_data ''items'' = Some (JArr items)"
  then have it: "map_of manifest_data ''items'' = Some (JArr items)" by blast
  from a obtain processed saved where
    p: "process_items env ([], 0) items = Inr (processed, saved)"
    and out: "out = dict_set ''loop_detection''
                 (JObj [(''total_clips'', JNum (of_nat (length processed))),
                        (''total_time_saved'', JNum saved),
                        (''trimming_method'', JStr ''start_and_end'')])
                 (dict_set ''items'' (JArr processed) manifest_data)"
    by (auto simp: process_smart_manifest_with_loop_detection_def it Let_def
          split: if_splits sum.splits)
  from process_items_acc [OF p]
  have "processed = concat (map (\<lambda>it. case process_item env it of
                                          Inr (Some (n, t)) \<Rightarrow> [JObj n] | _ \<Rightarrow> []) items)"
    by simp
  then show "(\<forall>k. k \<noteq> ''items'' \<and> k \<noteq> ''loop_detection'' \<longrightarrow> map_of out k = map_of manifest_data k)
     \<and> map_of out ''items''
         = Some (JArr (concat (map (\<lambda>it. case process_item env it of
                                          Inr (Some (n, t)) \<Rightarrow> [JObj n] | _ \<Rightarrow> []) items)))"
    by (simp add: out map_of_dict_set)
qed


theorem loop_pass_written_manifest_witness:
  "process_smart_manifest_with_loop_detection full_disk kept_manifest
     = \<lparr>written = Some refined_manifest, raised = None\<rparr>
   \<and> map_of kept_manifest ''items'' = Some (JArr [JObj kept_item])
   \<and> map_of refined_manifest ''transitions'' = map_of kept_manifest ''transitions''
   \<and> map_of refined_manifest ''version'' = map_of kept_manifest ''version''"
proof -
  have i: "map_of kept_manifest ''items'' = Some (JArr [JObj kept_item])"
    by (simp add: kept_manifest_def)
  have ne: "''transitions'' \<noteq> ''items'' \<and> ''transitions'' \<noteq> ''loop_detection''"
    "''version'' \<noteq> ''items'' \<and> ''version'' \<noteq> ''loop_detection''"
    by simp_all
  from loop_pass_written_manifest
    [where env = full_disk and manifest_data = kept_manifest and r = None
       and items = "[JObj kept_item]" and out = refined_manifest]
    kept_manifest_pass i
  have every: "\<forall>k. k \<noteq> ''items'' \<and> k \<noteq> ''loop_detection'' \<longrightarrow>
      map_of refined_manifest k = map_of kept_manifest k"
    by blast
  from every [THEN spec, THEN mp, OF ne(1)] every [THEN spec, THEN mp, OF ne(2)]
    kept_manifest_pass i
  show ?thesis
    by (intro conjI)
qed

end
